theory Spec2Isabelle
  imports Main "HOL-Library.Sublist" "HOL-Library.Monad_Syntax"
begin

section \<open>JSON values and JavaScript truthiness\<close>

text \<open>
  A JSON value as \<^verbatim>\<open>JSON.parse\<close> returns it. A number is kept exactly, as
  \<open>mantissa * 10 ^ exponent\<close> with a mantissa that does not end in zero (zero is
  \<open>JNum 0 0\<close>); the rounding of IEEE doubles is not modelled. Strings are lists of
  bytes. An object is an association list with distinct keys, in order of first insertion.
\<close>

datatype json =
    JNull
  | JBool bool
  | JNum int int
  | JStr string
  | JArr "json list"
  | JObj "(string \<times> json) list"

text \<open>What \<^verbatim>\<open>if (v)\<close> and \<^verbatim>\<open>v || d\<close> test, on a JSON value.\<close>

fun js_truthy :: "json \<Rightarrow> bool" where
  "js_truthy JNull = False"
| "js_truthy (JBool b) = b"
| "js_truthy (JNum m e) = (m \<noteq> 0)"
| "js_truthy (JStr s) = (s \<noteq> [])"
| "js_truthy (JArr xs) = True"
| "js_truthy (JObj kvs) = True"

text \<open>\<^verbatim>\<open>v || d\<close> where \<open>v\<close> is a property that may be missing (\<open>None\<close> is \<^verbatim>\<open>undefined\<close>).\<close>

definition js_or :: "json option \<Rightarrow> json \<Rightarrow> json" where
  "js_or v d = (case v of None \<Rightarrow> d | Some x \<Rightarrow> if js_truthy x then x else d)"

text \<open>
  Setting a property of an object: an existing key keeps its place, a new key goes last.
\<close>

fun obj_set :: "string \<Rightarrow> json \<Rightarrow> (string \<times> json) list \<Rightarrow> (string \<times> json) list" where
  "obj_set k v [] = [(k, v)]"
| "obj_set k v ((k', v') # kvs) = (if k = k' then (k, v) # kvs else (k', v') # obj_set k v kvs)"

fun show_nat :: "nat \<Rightarrow> string" where
  "show_nat n =
     (if n < 10 then [char_of (48 + n)] else show_nat (n div 10) @ [char_of (48 + n mod 10)])"

declare show_nat.simps [simp del]

text \<open>
  The own enumerable properties that an object spread \<^verbatim>\<open>{...v}\<close> copies: the members of
  an object, the elements of an array and the characters of a string under their indices,
  nothing for a number, a boolean or \<^verbatim>\<open>null\<close>.
\<close>

fun own_props :: "json \<Rightarrow> (string \<times> json) list" where
  "own_props (JObj kvs) = kvs"
| "own_props (JArr xs) = zip (map show_nat [0..<length xs]) xs"
| "own_props (JStr s) = zip (map show_nat [0..<length s]) (map (\<lambda>c. JStr [c]) s)"
| "own_props v = []"

text \<open>
  \<^verbatim>\<open>{ ...a, ...b }\<close>. Keys stay in order of first insertion; the order in which
  JavaScript enumerates integer-like keys is not modelled.
\<close>

definition js_spread :: "json \<Rightarrow> json \<Rightarrow> json" where
  "js_spread a b = JObj (fold (\<lambda>(k, v). obj_set k v) (own_props a @ own_props b) [])"

section \<open>\<^verbatim>\<open>JSON.parse\<close>\<close>

definition dquote :: char where
  "dquote = CHR 0x22"

definition backslash :: char where
  "backslash = CHR 0x5C"

definition is_json_ws :: "char \<Rightarrow> bool" where
  "is_json_ws c = (c = CHR '' '' \<or> c = CHR 0x09 \<or> c = CHR 0x0A \<or> c = CHR 0x0D)"

definition skip_ws :: "string \<Rightarrow> string" where
  "skip_ws s = dropWhile is_json_ws s"

definition is_digit :: "char \<Rightarrow> bool" where
  "is_digit c = (c \<in> set ''0123456789'')"

definition digit_val :: "char \<Rightarrow> nat" where
  "digit_val c = of_char c - 48"

definition digits_val :: "string \<Rightarrow> nat" where
  "digits_val ds = foldl (\<lambda>a c. 10 * a + digit_val c) 0 ds"

definition hex_val :: "char \<Rightarrow> nat option" where
  "hex_val c =
     (let n = (of_char c :: nat) in
      if 48 \<le> n \<and> n \<le> 57 then Some (n - 48)
      else if 97 \<le> n \<and> n \<le> 102 then Some (n - 87)
      else if 65 \<le> n \<and> n \<le> 70 then Some (n - 55)
      else None)"

text \<open>
  A \<^verbatim>\<open>\uXXXX\<close> escape gives one UTF-16 code unit; the model keeps strings as bytes and
  stores the unit in UTF-8 (surrogate pairs are not joined).
\<close>

definition utf8_of_unit :: "nat \<Rightarrow> string" where
  "utf8_of_unit n =
     (if n < 128 then [char_of n]
      else if n < 2048 then [char_of (192 + n div 64), char_of (128 + n mod 64)]
      else [char_of (224 + n div 4096), char_of (128 + (n div 64) mod 64),
            char_of (128 + n mod 64)])"

definition escape_char :: "char \<Rightarrow> char option" where
  "escape_char e =
     (if e = dquote then Some dquote
      else if e = backslash then Some backslash
      else if e = CHR ''/'' then Some CHR ''/''
      else if e = CHR ''b'' then Some (CHR 0x08)
      else if e = CHR ''f'' then Some (CHR 0x0C)
      else if e = CHR ''n'' then Some (CHR 0x0A)
      else if e = CHR ''r'' then Some (CHR 0x0D)
      else if e = CHR ''t'' then Some (CHR 0x09)
      else None)"

text \<open>
  The characters of a string literal after its opening quote, up to the closing quote:
  the decoded string and the rest of the input. A raw control character, an unknown
  escape and a missing closing quote are syntax errors.
\<close>

fun parse_string_body :: "string \<Rightarrow> (string \<times> string) option" where
  "parse_string_body [] = None"
| "parse_string_body (c # cs) =
     (if c = dquote then Some ([], cs)
      else if c = backslash then
        (case cs of
           [] \<Rightarrow> None
         | e # r \<Rightarrow>
             (if e = CHR ''u'' then
                (case r of
                   h1 # h2 # h3 # h4 # r' \<Rightarrow>
                     (case (hex_val h1, hex_val h2, hex_val h3, hex_val h4) of
                        (Some a, Some b, Some c', Some d) \<Rightarrow>
                          map_option
                            (\<lambda>(s, t). (utf8_of_unit (4096 * a + 256 * b + 16 * c' + d) @ s, t))
                            (parse_string_body r')
                      | _ \<Rightarrow> None)
                 | _ \<Rightarrow> None)
              else
                (case escape_char e of
                   None \<Rightarrow> None
                 | Some x \<Rightarrow> map_option (\<lambda>(s, t). (x # s, t)) (parse_string_body r))))
      else if (of_char c :: nat) < 32 then None
      else map_option (\<lambda>(s, t). (c # s, t)) (parse_string_body cs))"

text \<open>
  The number with sign \<open>neg\<close>, integer digits \<open>ip\<close>, fraction digits \<open>fp\<close> and
  exponent \<open>ex\<close>, with the trailing zeros of the mantissa moved into the exponent.
\<close>

definition make_num :: "bool \<Rightarrow> string \<Rightarrow> string \<Rightarrow> int \<Rightarrow> json" where
  "make_num neg ip fp ex =
     (let ds = rev (dropWhile (\<lambda>c. c = CHR ''0'') (rev (ip @ fp)));
          m = int (digits_val ds)
      in if m = 0 then JNum 0 0
         else JNum (if neg then - m else m)
                (ex - int (length fp) + int (length (ip @ fp) - length ds)))"

definition parse_exponent :: "string \<Rightarrow> (int \<times> string) option" where
  "parse_exponent s =
     (case s of
        [] \<Rightarrow> Some (0, s)
      | c # cs \<Rightarrow>
          if c = CHR ''e'' \<or> c = CHR ''E'' then
            (let (neg, r) =
                   (case cs of
                      [] \<Rightarrow> (False, cs)
                    | g # r' \<Rightarrow>
                        if g = CHR ''-'' then (True, r')
                        else if g = CHR ''+'' then (False, r')
                        else (False, cs));
                 ds = takeWhile is_digit r
             in if ds = [] then None
                else Some ((if neg then - int (digits_val ds) else int (digits_val ds)),
                           dropWhile is_digit r))
          else Some (0, s))"

definition parse_fraction :: "string \<Rightarrow> (string \<times> string) option" where
  "parse_fraction s =
     (case s of
        [] \<Rightarrow> Some ([], s)
      | c # cs \<Rightarrow>
          if c = CHR ''.'' then
            (let ds = takeWhile is_digit cs
             in if ds = [] then None else Some (ds, dropWhile is_digit cs))
          else Some ([], s))"

text \<open>
  \<^verbatim>\<open>-? (0 | [1-9][0-9]*) (. [0-9]+)? ([eE] [+-]? [0-9]+)?\<close>
\<close>

definition parse_number :: "string \<Rightarrow> (json \<times> string) option" where
  "parse_number s =
     (let neg = (case s of [] \<Rightarrow> False | c # cs \<Rightarrow> c = CHR ''-'');
          s1 = (if neg then tl s else s);
          ip = takeWhile is_digit s1;
          s2 = dropWhile is_digit s1
      in if ip = [] \<or> (hd ip = CHR ''0'' \<and> length ip > 1) then None
         else (case parse_fraction s2 of
                 None \<Rightarrow> None
               | Some (fp, s3) \<Rightarrow>
                   (case parse_exponent s3 of
                      None \<Rightarrow> None
                    | Some (ex, s4) \<Rightarrow> Some (make_num neg ip fp ex, s4))))"

lemma skip_ws_le: "length (skip_ws s) \<le> length s"
  by (simp add: skip_ws_def length_dropWhile_le)

lemma skip_ws_Cons: "skip_ws s = c # r \<Longrightarrow> length r < length s"
  using skip_ws_le [of s] by simp

text \<open>
  Recursive descent over the input. Each function returns the value read and the rest of
  the input, or \<open>None\<close> for a syntax error. The tests \<open>length r < length s\<close> are there
  for the termination proof only: by \<open>parse_elements_unguarded\<close> and
  \<open>parse_members_unguarded\<close> they never fail.
  A repeated key of an object keeps its first place and takes the last value.
\<close>

function (sequential) parse_value :: "string \<Rightarrow> (json \<times> string) option"
  and parse_elements :: "json list \<Rightarrow> string \<Rightarrow> (json \<times> string) option"
  and parse_members :: "(string \<times> json) list \<Rightarrow> string \<Rightarrow> (json \<times> string) option" where
  "parse_value s =
     (case skip_ws s of
        [] \<Rightarrow> None
      | c # cs \<Rightarrow>
          if c = CHR ''{'' then
            (case skip_ws cs of
               [] \<Rightarrow> None
             | d # r \<Rightarrow> if d = CHR ''}'' then Some (JObj [], r) else parse_members [] cs)
          else if c = CHR ''['' then
            (case skip_ws cs of
               [] \<Rightarrow> None
             | d # r \<Rightarrow> if d = CHR '']'' then Some (JArr [], r) else parse_elements [] cs)
          else if c = dquote then map_option (\<lambda>(x, r). (JStr x, r)) (parse_string_body cs)
          else if c = CHR ''-'' \<or> is_digit c then parse_number (c # cs)
          else if prefix ''true'' (c # cs) then Some (JBool True, drop 4 (c # cs))
          else if prefix ''false'' (c # cs) then Some (JBool False, drop 5 (c # cs))
          else if prefix ''null'' (c # cs) then Some (JNull, drop 4 (c # cs))
          else None)"
| "parse_elements acc s =
     (case parse_value s of
        None \<Rightarrow> None
      | Some (v, r) \<Rightarrow>
          if length r < length s then
            (case skip_ws r of
               [] \<Rightarrow> None
             | d # r' \<Rightarrow>
                 if d = CHR '','' then parse_elements (acc @ [v]) r'
                 else if d = CHR '']'' then Some (JArr (acc @ [v]), r')
                 else None)
          else None)"
| "parse_members acc s =
     (case skip_ws s of
        [] \<Rightarrow> None
      | q # ks \<Rightarrow>
          if q = dquote then
            (case parse_string_body ks of
               None \<Rightarrow> None
             | Some (k, r0) \<Rightarrow>
                 (case skip_ws r0 of
                    [] \<Rightarrow> None
                  | col # r1 \<Rightarrow>
                      if col = CHR '':'' \<and> length r1 < length s then
                        (case parse_value r1 of
                           None \<Rightarrow> None
                         | Some (v, r) \<Rightarrow>
                             if length r < length r1 then
                               (case skip_ws r of
                                  [] \<Rightarrow> None
                                | d # r' \<Rightarrow>
                                    if d = CHR '','' then parse_members (obj_set k v acc) r'
                                    else if d = CHR ''}'' then Some (JObj (obj_set k v acc), r')
                                    else None)
                             else None)
                      else None))
          else None)"
  by pat_completeness auto
termination
  by (relation "measure (\<lambda>x. case x of
                   Inl s \<Rightarrow> 2 * length s
                 | Inr (Inl (acc, s)) \<Rightarrow> 2 * length s + 1
                 | Inr (Inr (acc, s)) \<Rightarrow> 2 * length s + 1)")
     (auto dest!: skip_ws_Cons)

declare parse_value.simps [simp del] parse_elements.simps [simp del] parse_members.simps [simp del]

text \<open>
  \<^verbatim>\<open>JSON.parse(s)\<close> for a string \<open>s\<close>: one value between optional white space.
  \<open>None\<close> is the \<^verbatim>\<open>SyntaxError\<close> that \<^verbatim>\<open>JSON.parse\<close> throws.
\<close>

definition JSON_parse :: "string \<Rightarrow> json option" where
  "JSON_parse s =
     (case parse_value s of
        None \<Rightarrow> None
      | Some (v, r) \<Rightarrow> if skip_ws r = [] then Some v else None)"

section \<open>Conversation messages and wire messages\<close>

text \<open>
  The content of a LangChain message: a string, or a list of content parts.
\<close>

datatype content = Text string | Parts "json list"

text \<open>
  A tool invocation \<^verbatim>\<open>{id, name, args}\<close>. The streaming assembler of
  \<^verbatim>\<open>GrokChatModel\<close> also keeps the raw argument text on the same object, as
  \<^verbatim>\<open>argsString\<close>; \<open>None\<close> is an object without that property.
\<close>

record tool_call =
  tc_id :: string
  tc_name :: string
  tc_args :: json
  tc_argsString :: "string option"

text \<open>
  The fields of a LangChain \<^verbatim>\<open>BaseMessage\<close> that this repository reads: the result of
  \<^verbatim>\<open>getType()\<close>, \<^verbatim>\<open>content\<close>, \<^verbatim>\<open>tool_calls\<close> (empty when the message has none),
  \<^verbatim>\<open>tool_call_id\<close> and \<^verbatim>\<open>additional_kwargs.type\<close>.
\<close>

record message =
  msg_type :: string
  msg_content :: content
  msg_tool_calls :: "tool_call list"
  msg_tool_call_id :: string
  msg_kwargs_type :: "string option"

record wire_tool_call =
  wtc_id :: string
  wtc_type :: string
  wtc_name :: string
  wtc_arguments :: string

text \<open>
  The provider-facing message. A field that the object literal of the source does not
  have is \<open>None\<close>.
\<close>

record wire_message =
  role :: string
  content :: content
  tool_calls :: "wire_tool_call list option"
  tool_call_id :: "string option"

definition plain_wire :: "string \<Rightarrow> content \<Rightarrow> wire_message" where
  "plain_wire r c = \<lparr>role = r, content = c, tool_calls = None, tool_call_id = None\<rparr>"

text \<open>The one content part \<^verbatim>\<open>{type: "image_url", image_url: {url: u}}\<close>.\<close>

definition image_url_part :: "string \<Rightarrow> json" where
  "image_url_part u =
     JObj [(''type'', JStr ''image_url''), (''image_url'', JObj [(''url'', JStr u)])]"

text \<open>The content when it is a string.\<close>

fun content_string :: "content \<Rightarrow> string option" where
  "content_string (Text s) = Some s"
| "content_string (Parts ps) = None"

text \<open>\<^verbatim>\<open>typeof content === "string" && content.startsWith("data:image/")\<close>\<close>

fun is_image_data_uri :: "content \<Rightarrow> bool" where
  "is_image_data_uri (Text s) = prefix ''data:image/'' s"
| "is_image_data_uri (Parts ps) = False"

text \<open>\<^verbatim>\<open>content || ""\<close>: the empty string is the only falsy content.\<close>

fun content_or_empty :: "content \<Rightarrow> content" where
  "content_or_empty (Text s) = Text s"
| "content_or_empty (Parts ps) = Parts ps"

text \<open>
  \<^verbatim>\<open>convertMessageToGrokFormat\<close> of the custom model call. \<^verbatim>\<open>JSON.stringify\<close> is the
  parameter \<open>stringify\<close>.
\<close>

definition convertMessageToGrokFormat :: "(json \<Rightarrow> string) \<Rightarrow> message \<Rightarrow> wire_message" where
  "convertMessageToGrokFormat stringify m =
     (if msg_type m = ''system'' then plain_wire ''system'' (msg_content m)
      else if msg_type m = ''human'' then plain_wire ''user'' (msg_content m)
      else if msg_type m = ''ai'' then
        \<lparr>role = ''assistant'', content = content_or_empty (msg_content m),
         tool_calls =
           (if msg_tool_calls m \<noteq> [] then
              Some (map (\<lambda>tc. \<lparr>wtc_id = tc_id tc, wtc_type = ''function'',
                                wtc_name = tc_name tc,
                                wtc_arguments = stringify (tc_args tc)\<rparr>) (msg_tool_calls m))
            else None),
         tool_call_id = None\<rparr>
      else if msg_type m = ''tool'' then
        (if is_image_data_uri (msg_content m) then
           plain_wire ''user'' (Parts [image_url_part (the (content_string (msg_content m)))])
         else
           \<lparr>role = ''tool'', content = msg_content m, tool_calls = None,
            tool_call_id = Some (msg_tool_call_id m)\<rparr>)
      else plain_wire ''user'' (content_or_empty (msg_content m)))"

text \<open>
  The conversion written inline in \<^verbatim>\<open>GrokChatModel._generate\<close> (both variants of
  \<^verbatim>\<open>grok-patch.ts\<close> have the same one).
\<close>

definition generate_convert :: "message \<Rightarrow> wire_message" where
  "generate_convert m =
     (if msg_type m = ''system'' then plain_wire ''system'' (msg_content m)
      else if msg_type m = ''human'' then plain_wire ''user'' (msg_content m)
      else if msg_type m = ''ai'' then plain_wire ''assistant'' (msg_content m)
      else if msg_type m = ''tool'' then
        (if is_image_data_uri (msg_content m) then
           plain_wire ''user'' (Parts [image_url_part (the (content_string (msg_content m)))])
         else plain_wire ''user'' (content_or_empty (msg_content m)))
      else plain_wire ''user'' (content_or_empty (msg_content m)))"

text \<open>The conversion written inline in \<^verbatim>\<open>callModelStreamingCustom\<close>.\<close>

definition streaming_convert :: "message \<Rightarrow> wire_message" where
  "streaming_convert m =
     (if msg_type m = ''human'' then plain_wire ''user'' (msg_content m)
      else if msg_type m = ''ai'' then plain_wire ''assistant'' (msg_content m)
      else if msg_type m = ''system'' then plain_wire ''system'' (msg_content m)
      else plain_wire ''user'' (content_or_empty (msg_content m)))"

section \<open>The request body of \<^verbatim>\<open>GrokChatModel\<close>\<close>

text \<open>
  The fields of \<^verbatim>\<open>options\<close> that \<^verbatim>\<open>_generate\<close> and \<^verbatim>\<open>_streamGenerate\<close> put into the
  request body; \<open>None\<close> is a missing property.
\<close>

record gen_options =
  opt_temperature :: "json option"
  opt_max_tokens :: "json option"

record request_body =
  rb_model :: string
  rb_messages :: "wire_message list"
  rb_tools :: "json list option"
  rb_tool_choice :: "string option"
  rb_temperature :: json
  rb_max_tokens :: json
  rb_stream :: bool

text \<open>
  The object given to \<^verbatim>\<open>JSON.stringify\<close> in \<^verbatim>\<open>_generate\<close> (\<open>stream = False\<close>) and in
  \<^verbatim>\<open>_streamGenerate\<close> (\<open>stream = True\<close>); \<open>0.1\<close> is \<open>JNum 1 (- 1)\<close>.
\<close>

definition generate_body ::
  "wire_message list \<Rightarrow> json list \<Rightarrow> gen_options \<Rightarrow> bool \<Rightarrow> request_body" where
  "generate_body xaiMessages grokTools options stream =
     \<lparr>rb_model = ''grok-2-vision-1212'',
      rb_messages = xaiMessages,
      rb_tools = (if length grokTools > 0 then Some grokTools else None),
      rb_tool_choice = (if length grokTools > 0 then Some ''auto'' else None),
      rb_temperature = js_or (opt_temperature options) (JNum 1 (- 1)),
      rb_max_tokens = js_or (opt_max_tokens options) (JNum 4096 0),
      rb_stream = stream\<rparr>"

section \<open>The platform\<close>

text \<open>
  What a call can raise. \<open>HttpError\<close> carries the status and the reason text of the
  message \<^verbatim>\<open>Grok API error: ${status} - ${statusText}\<close>; \<open>NoBody\<close> is
  \<^verbatim>\<open>No response body available for streaming\<close>; \<open>ConfigError\<close> is the missing
  \<^verbatim>\<open>XAI_API_KEY\<close>.
\<close>

datatype js_error =
    NetworkError
  | HttpError nat string
  | SyntaxError
  | TypeError
  | NoBody
  | ConfigError

text \<open>
  A response of \<^verbatim>\<open>fetch\<close>: \<open>body\<close> is the byte chunks that the reader delivers
  (\<open>None\<close> is a null body), and \<open>aborted\<close> says that the read after the last chunk
  rejects instead of reporting the end. Text is kept as bytes: \<^verbatim>\<open>TextDecoder\<close> is the
  identity.
\<close>

record http_response =
  ok :: bool
  status :: nat
  statusText :: string
  body :: "string list option"
  aborted :: bool

datatype fetch_outcome = Rejected | Response http_response

text \<open>
  What the code takes from outside the repository: \<^verbatim>\<open>new URL(value)\<close> succeeding,
  \<^verbatim>\<open>fetch\<close> of a resource, \<^verbatim>\<open>Buffer.toString("base64")\<close>, \<^verbatim>\<open>JSON.stringify\<close>,
  the \<^verbatim>\<open>POST\<close> of a request body to a URL with a bearer token, and \<^verbatim>\<open>Date.now()\<close>.
\<close>

record platform =
  is_url :: "string \<Rightarrow> bool"
  http_get :: "string \<Rightarrow> fetch_outcome"
  base64 :: "string \<Rightarrow> string"
  stringify :: "json \<Rightarrow> string"
  http_post :: "string \<Rightarrow> string \<Rightarrow> request_body \<Rightarrow> fetch_outcome"
  date_now :: nat

definition body_text :: "http_response \<Rightarrow> string" where
  "body_text r = concat (case body r of None \<Rightarrow> [] | Some cs \<Rightarrow> cs)"

section \<open>Image resolution and the custom model call\<close>

text \<open>
  \<^verbatim>\<open>imageUrlToBase64\<close>: the status of the response is not looked at; a rejected
  \<^verbatim>\<open>fetch\<close> or \<^verbatim>\<open>arrayBuffer()\<close> is raised.
\<close>

definition imageUrlToBase64 :: "platform \<Rightarrow> string \<Rightarrow> js_error + string" where
  "imageUrlToBase64 pf imageUrl =
     (case http_get pf imageUrl of
        Rejected \<Rightarrow> Inl NetworkError
      | Response r \<Rightarrow>
          if aborted r then Inl NetworkError
          else Inr (''data:image/png;base64,'' @ base64 pf (body_text r)))"

definition conditionallyUpdateToolMessageContent ::
  "platform \<Rightarrow> message \<Rightarrow> js_error + message" where
  "conditionallyUpdateToolMessageContent pf m =
     (if msg_type m = ''tool''
         \<and> msg_kwargs_type m = Some ''computer_call_output''
         \<and> content_string (msg_content m) \<noteq> None
         \<and> is_url pf (the (content_string (msg_content m)))
      then
        (case imageUrlToBase64 pf (the (content_string (msg_content m))) of
           Inl e \<Rightarrow> Inl e
         | Inr d \<Rightarrow> Inr (m\<lparr>msg_content := Text d\<rparr>))
      else Inr m)"

text \<open>\<^verbatim>\<open>Promise.all\<close> over the messages: the list of results, or the first error.\<close>

fun update_all :: "platform \<Rightarrow> message list \<Rightarrow> js_error + message list" where
  "update_all pf [] = Inr []"
| "update_all pf (m # ms) =
     (case conditionallyUpdateToolMessageContent pf m of
        Inl e \<Rightarrow> Inl e
      | Inr m' \<Rightarrow> (case update_all pf ms of Inl e \<Rightarrow> Inl e | Inr ms' \<Rightarrow> Inr (m' # ms')))"

datatype prompt = PromptText string | PromptMessage message

record configuration =
  zdrEnabled :: bool
  cfg_prompt :: "prompt option"
  environment :: string

text \<open>
  The messages pushed for \<^verbatim>\<open>configuration.prompt\<close>: none for a missing or empty
  prompt, one system message for a string, the converted message otherwise.
\<close>

fun prompt_messages :: "platform \<Rightarrow> prompt option \<Rightarrow> wire_message list" where
  "prompt_messages pf None = []"
| "prompt_messages pf (Some (PromptText s)) =
     (if s \<noteq> [] then [plain_wire ''system'' (Text s)] else [])"
| "prompt_messages pf (Some (PromptMessage m)) = [convertMessageToGrokFormat (stringify pf) m]"

text \<open>
  \<^verbatim>\<open>isComputerCallToolMessage\<close>, which \<^verbatim>\<open>callModelCustom\<close> imports from
  \<^verbatim>\<open>@langchain/langgraph-cua\<close>: the test of the type and of the tag that
  \<^verbatim>\<open>conditionallyUpdateToolMessageContent\<close> writes out,
  \<^verbatim>\<open>message.getType() === "tool" && message.additional_kwargs?.type === "computer_call_output"\<close>.
  It calls \<^verbatim>\<open>getType\<close> on its argument, so on \<^verbatim>\<open>undefined\<close> it raises a \<^verbatim>\<open>TypeError\<close>:
  that case is a branch of \<open>callModelCustom_messages\<close>.
\<close>

definition isComputerCallToolMessage :: "message \<Rightarrow> bool" where
  "isComputerCallToolMessage m =
     (msg_type m = ''tool'' \<and> msg_kwargs_type m = Some ''computer_call_output'')"

text \<open>
  The messages that \<^verbatim>\<open>callModelCustom\<close> gives to \<^verbatim>\<open>createChatCompletion\<close>. For an
  empty history \<^verbatim>\<open>lastMessage\<close> is \<^verbatim>\<open>undefined\<close>, and \<^verbatim>\<open>isComputerCallToolMessage\<close>
  raises before any request.
\<close>

definition callModelCustom_messages ::
  "platform \<Rightarrow> configuration \<Rightarrow> message list \<Rightarrow> js_error + wire_message list" where
  "callModelCustom_messages pf cfg messages =
     (if messages = [] then Inl TypeError
      else
        (let lastMessage = last messages;
             isLastMessageComputerCallOutput = isComputerCallToolMessage lastMessage
         in if isLastMessageComputerCallOutput \<and> \<not> zdrEnabled cfg then
              (case conditionallyUpdateToolMessageContent pf lastMessage of
                 Inl e \<Rightarrow> Inl e
               | Inr formattedMessage \<Rightarrow>
                   Inr [convertMessageToGrokFormat (stringify pf) formattedMessage])
            else
              (case update_all pf messages of
                 Inl e \<Rightarrow> Inl e
               | Inr formattedMessages \<Rightarrow>
                   Inr (prompt_messages pf (cfg_prompt cfg)
                        @ map (convertMessageToGrokFormat (stringify pf)) formattedMessages))))"

section \<open>Assistant messages\<close>

record response_metadata =
  md_id :: "string option"
  md_model :: "string option"
  md_usage :: "json option"
  md_finish_reason :: "string option"

definition no_metadata :: response_metadata where
  "no_metadata = \<lparr>md_id = None, md_model = None, md_usage = None, md_finish_reason = None\<rparr>"

text \<open>The fields given to \<^verbatim>\<open>new AIMessage({content, tool_calls, response_metadata})\<close>.\<close>

record ai_message =
  ai_content :: string
  ai_tool_calls :: "tool_call list"
  ai_response_metadata :: response_metadata

text \<open>
  What \<^verbatim>\<open>GrokChatModel\<close> returns: the message of \<^verbatim>\<open>generations[0]\<close> (its \<^verbatim>\<open>text\<close>
  is the content of the message) and \<^verbatim>\<open>llmOutput\<close>.
\<close>

record chat_result =
  cr_message :: ai_message
  cr_tokenUsage :: "json option"
  cr_model :: "string option"

text \<open>\<^verbatim>\<open>{prompt_tokens: p, completion_tokens: c, total_tokens: t}\<close>\<close>

definition usage :: "json \<Rightarrow> json \<Rightarrow> json \<Rightarrow> json" where
  "usage p c t = JObj [(''prompt_tokens'', p), (''completion_tokens'', c), (''total_tokens'', t)]"

text \<open>\<^verbatim>\<open>{action: {type: "screenshot"}}\<close>\<close>

definition screenshot_args :: json where
  "screenshot_args = JObj [(''action'', JObj [(''type'', JStr ''screenshot'')])]"

text \<open>The message of the \<^verbatim>\<open>catch\<close> of \<^verbatim>\<open>GrokClient.createChatCompletion\<close>.\<close>

definition client_fallback :: ai_message where
  "client_fallback =
     \<lparr>ai_content = ''I'' @ [CHR 0x27] @ ''m having trouble connecting to the Grok API. Let me try a different approach. I'' @ [CHR 0x27] @ ''ll take a screenshot first to see the current state.'',
      ai_tool_calls =
        [\<lparr>tc_id = ''fallback_screenshot'', tc_name = ''computer_use'', tc_args = screenshot_args,
          tc_argsString = None\<rparr>],
      ai_response_metadata =
        \<lparr>md_id = Some ''fallback_response'', md_model = Some ''grok-2-vision-1212'',
         md_usage = Some (usage (JNum 0 0) (JNum 5 1) (JNum 5 1)), md_finish_reason = None\<rparr>\<rparr>"

text \<open>The result of the \<^verbatim>\<open>catch\<close> of \<^verbatim>\<open>GrokChatModel._generate\<close>.\<close>

definition generate_fallback :: chat_result where
  "generate_fallback =
     \<lparr>cr_message =
        \<lparr>ai_content = ''I'' @ [CHR 0x27] @ ''m having trouble connecting to the Grok API. Let me take a screenshot to see the current state.'',
         ai_tool_calls =
           [\<lparr>tc_id = ''fallback_screenshot'', tc_name = ''computer_use_preview'',
             tc_args = screenshot_args, tc_argsString = None\<rparr>],
         ai_response_metadata = no_metadata\<rparr>,
      cr_tokenUsage = Some (usage (JNum 0 0) (JNum 5 1) (JNum 5 1)),
      cr_model = Some ''grok-2-vision-1212''\<rparr>"

section \<open>Reading JSON at the wire schema\<close>

text \<open>
  The code reads the parsed JSON through untyped property accesses. The model reads it at
  the schema of the provider: every property the code reads is missing (also \<^verbatim>\<open>null\<close>,
  which the code treats alike) or has the type of the schema. A decoder returns \<open>None\<close>
  for JSON outside this schema; what the code does there is not modelled.
\<close>

definition get_field :: "(string \<times> json) list \<Rightarrow> string \<Rightarrow> json option" where
  "get_field kvs k = (case map_of kvs k of Some JNull \<Rightarrow> None | r \<Rightarrow> r)"

fun decode_string :: "json option \<Rightarrow> string option option" where
  "decode_string None = Some None"
| "decode_string (Some (JStr s)) = Some (Some s)"
| "decode_string (Some v) = None"

fun required_string :: "json option \<Rightarrow> string option" where
  "required_string (Some (JStr s)) = Some s"
| "required_string v = None"

fun decode_index :: "json option \<Rightarrow> nat option option" where
  "decode_index None = Some None"
| "decode_index (Some (JNum m e)) =
     (if 0 \<le> m \<and> 0 \<le> e then Some (Some (nat m * 10 ^ nat e)) else None)"
| "decode_index (Some v) = None"

fun as_object :: "((string \<times> json) list \<Rightarrow> 'a option) \<Rightarrow> json \<Rightarrow> 'a option" where
  "as_object f (JObj kvs) = f kvs"
| "as_object f v = None"

fun decode_object ::
  "((string \<times> json) list \<Rightarrow> 'a option) \<Rightarrow> json option \<Rightarrow> 'a option option" where
  "decode_object f None = Some None"
| "decode_object f (Some v) = map_option Some (as_object f v)"

fun decode_array :: "(json \<Rightarrow> 'a option) \<Rightarrow> json option \<Rightarrow> 'a list option option" where
  "decode_array f None = Some None"
| "decode_array f (Some (JArr xs)) = map_option Some (those (map f xs))"
| "decode_array f (Some v) = None"

section \<open>The non-streaming response\<close>

record completion_function =
  cf_name :: string
  cf_arguments :: "string option"

record completion_tool_call =
  ctc_id :: string
  ctc_function :: "completion_function option"

record completion_message =
  cm_content :: "string option"
  cm_tool_calls :: "completion_tool_call list option"

record completion_choice =
  cc_message :: "completion_message option"
  cc_finish_reason :: "string option"

record completion =
  cp_id :: "string option"
  cp_model :: "string option"
  cp_usage :: "json option"
  cp_choices :: "completion_choice list option"

definition decode_completion_function :: "(string \<times> json) list \<Rightarrow> completion_function option" where
  "decode_completion_function kvs =
     do {
       n \<leftarrow> required_string (get_field kvs ''name'');
       a \<leftarrow> decode_string (get_field kvs ''arguments'');
       Some \<lparr>cf_name = n, cf_arguments = a\<rparr>
     }"

definition decode_completion_tool_call ::
  "(string \<times> json) list \<Rightarrow> completion_tool_call option" where
  "decode_completion_tool_call kvs =
     do {
       i \<leftarrow> required_string (get_field kvs ''id'');
       f \<leftarrow> decode_object decode_completion_function (get_field kvs ''function'');
       Some \<lparr>ctc_id = i, ctc_function = f\<rparr>
     }"

definition decode_completion_message :: "(string \<times> json) list \<Rightarrow> completion_message option" where
  "decode_completion_message kvs =
     do {
       c \<leftarrow> decode_string (get_field kvs ''content'');
       t \<leftarrow> decode_array (as_object decode_completion_tool_call) (get_field kvs ''tool_calls'');
       Some \<lparr>cm_content = c, cm_tool_calls = t\<rparr>
     }"

definition decode_completion_choice :: "(string \<times> json) list \<Rightarrow> completion_choice option" where
  "decode_completion_choice kvs =
     do {
       m \<leftarrow> decode_object decode_completion_message (get_field kvs ''message'');
       r \<leftarrow> decode_string (get_field kvs ''finish_reason'');
       Some \<lparr>cc_message = m, cc_finish_reason = r\<rparr>
     }"

definition decode_completion :: "json \<Rightarrow> completion option" where
  "decode_completion =
     as_object (\<lambda>kvs.
       do {
         i \<leftarrow> decode_string (get_field kvs ''id'');
         m \<leftarrow> decode_string (get_field kvs ''model'');
         cs \<leftarrow> decode_array (as_object decode_completion_choice) (get_field kvs ''choices'');
         Some \<lparr>cp_id = i, cp_model = m, cp_usage = get_field kvs ''usage'', cp_choices = cs\<rparr>
       })"

text \<open>\<^verbatim>\<open>tc.function.arguments || "{}"\<close>\<close>

definition arguments_or_default :: "string option \<Rightarrow> string" where
  "arguments_or_default a = (case a of None \<Rightarrow> ''{}'' | Some x \<Rightarrow> if x \<noteq> [] then x else ''{}'')"

text \<open>
  The function mapped over \<^verbatim>\<open>message.tool_calls\<close>: a missing \<^verbatim>\<open>function\<close> raises a
  \<^verbatim>\<open>TypeError\<close>, arguments that do not parse raise the \<^verbatim>\<open>SyntaxError\<close> of
  \<^verbatim>\<open>JSON.parse\<close>.
\<close>

definition tool_call_of :: "completion_tool_call \<Rightarrow> js_error + tool_call" where
  "tool_call_of tc =
     (case ctc_function tc of
        None \<Rightarrow> Inl TypeError
      | Some f \<Rightarrow>
          (case JSON_parse (arguments_or_default (cf_arguments f)) of
             None \<Rightarrow> Inl SyntaxError
           | Some a \<Rightarrow>
               Inr \<lparr>tc_id = ctc_id tc, tc_name = cf_name f, tc_args = a, tc_argsString = None\<rparr>))"

fun tool_calls_of :: "completion_tool_call list \<Rightarrow> js_error + tool_call list" where
  "tool_calls_of [] = Inr []"
| "tool_calls_of (tc # tcs) =
     (case tool_call_of tc of
        Inl e \<Rightarrow> Inl e
      | Inr t \<Rightarrow> (case tool_calls_of tcs of Inl e \<Rightarrow> Inl e | Inr ts \<Rightarrow> Inr (t # ts)))"

text \<open>
  The decoding of the response body into an \<^verbatim>\<open>AIMessage\<close>, as both
  \<^verbatim>\<open>GrokClient.createChatCompletion\<close> and \<^verbatim>\<open>GrokChatModel._generate\<close> write it; only the
  latter puts \<^verbatim>\<open>finish_reason\<close> into the metadata (\<open>with_finish_reason\<close>).
\<close>

definition fromWire :: "bool \<Rightarrow> completion \<Rightarrow> js_error + ai_message" where
  "fromWire with_finish_reason response =
     (case cp_choices response of
        None \<Rightarrow> Inl TypeError
      | Some [] \<Rightarrow> Inl TypeError
      | Some (choice # rest) \<Rightarrow>
          (case cc_message choice of
             None \<Rightarrow> Inl TypeError
           | Some message \<Rightarrow>
               (case tool_calls_of (case cm_tool_calls message of None \<Rightarrow> [] | Some tcs \<Rightarrow> tcs) of
                  Inl e \<Rightarrow> Inl e
                | Inr tcs \<Rightarrow>
                    Inr \<lparr>ai_content = (case cm_content message of None \<Rightarrow> [] | Some c \<Rightarrow> c),
                         ai_tool_calls = tcs,
                         ai_response_metadata =
                           \<lparr>md_id = cp_id response, md_model = cp_model response,
                            md_usage = cp_usage response,
                            md_finish_reason =
                              (if with_finish_reason then cc_finish_reason choice else None)\<rparr>\<rparr>)))"

text \<open>\<^verbatim>\<open>GrokClient.makeRequest\<close>, on the outcome of its \<^verbatim>\<open>fetch\<close>.\<close>

definition makeRequest :: "fetch_outcome \<Rightarrow> js_error + json" where
  "makeRequest outcome =
     (case outcome of
        Rejected \<Rightarrow> Inl NetworkError
      | Response r \<Rightarrow>
          if \<not> ok r then (if aborted r then Inl NetworkError else Inl (HttpError (status r) (statusText r)))
          else if aborted r then Inl NetworkError
          else (case JSON_parse (body_text r) of None \<Rightarrow> Inl SyntaxError | Some j \<Rightarrow> Inr j))"

definition client_body :: "wire_message list \<Rightarrow> json list \<Rightarrow> bool \<Rightarrow> request_body" where
  "client_body messages tools stream =
     \<lparr>rb_model = ''grok-2-vision-1212'',
      rb_messages = messages,
      rb_tools = (if length tools > 0 then Some tools else None),
      rb_tool_choice = (if length tools > 0 then Some ''auto'' else None),
      rb_temperature = JNum 1 (- 1),
      rb_max_tokens = JNum 4096 0,
      rb_stream = stream\<rparr>"

text \<open>
  The \<^verbatim>\<open>try\<close> block of \<^verbatim>\<open>GrokClient.createChatCompletion\<close>: what it returns or raises,
  for a response inside the schema.
\<close>

definition createChatCompletion_try ::
  "platform \<Rightarrow> string \<Rightarrow> string \<Rightarrow> wire_message list \<Rightarrow> json list \<Rightarrow> (js_error + ai_message) option" where
  "createChatCompletion_try pf apiKey baseURL messages tools =
     (case makeRequest (http_post pf (baseURL @ ''/chat/completions'') apiKey
                          (client_body messages tools False)) of
        Inl e \<Rightarrow> Some (Inl e)
      | Inr response \<Rightarrow> map_option (fromWire False) (decode_completion response))"

definition createChatCompletion ::
  "platform \<Rightarrow> string \<Rightarrow> string \<Rightarrow> wire_message list \<Rightarrow> json list \<Rightarrow> ai_message option" where
  "createChatCompletion pf apiKey baseURL messages tools =
     map_option (\<lambda>r. case r of Inl error \<Rightarrow> client_fallback | Inr m \<Rightarrow> m)
       (createChatCompletion_try pf apiKey baseURL messages tools)"

text \<open>
  What \<^verbatim>\<open>GrokClient.createChatCompletion\<close> returns when its request has the outcome
  \<open>outcome\<close>: lemma \<open>createChatCompletion_posts\<close> relates the two.
\<close>

definition completion_of :: "fetch_outcome \<Rightarrow> ai_message option" where
  "completion_of outcome =
     (case makeRequest outcome of
        Inl e \<Rightarrow> Some client_fallback
      | Inr response \<Rightarrow>
          (case decode_completion response of
             None \<Rightarrow> None
           | Some c \<Rightarrow>
               (case fromWire False c of
                  Inl e \<Rightarrow> Some client_fallback
                | Inr m \<Rightarrow> Some m)))"

section \<open>The tool description and \<^verbatim>\<open>callModelCustom\<close>\<close>

definition json_strings :: "string list \<Rightarrow> json" where
  "json_strings xs = JArr (map JStr xs)"

definition action_types :: json where
  "action_types =
     json_strings [''click'', ''double_click'', ''drag'', ''type'', ''key'', ''screenshot'',
                   ''scroll'', ''wait'']"

text \<open>\<^verbatim>\<open>createComputerUseTool\<close>; its argument \<^verbatim>\<open>environment\<close> is not used by the source.\<close>

definition createComputerUseTool :: "string \<Rightarrow> json" where
  "createComputerUseTool env =
     JObj [(''type'', JStr ''function''),
       (''function'', JObj [
          (''name'', JStr ''computer_use''),
          (''description'', JStr ''Use a computer to take actions like clicking, typing, and taking screenshots''),
          (''parameters'', JObj [
             (''type'', JStr ''object''),
             (''properties'', JObj [
                (''action'', JObj [
                   (''type'', JStr ''object''),
                   (''description'', JStr ''The computer action to perform''),
                   (''properties'', JObj [
                      (''type'', JObj [(''type'', JStr ''string''), (''enum'', action_types),
                         (''description'', JStr ''The type of action to perform'')]),
                      (''x'', JObj [(''type'', JStr ''number''),
                         (''description'', JStr ''X coordinate for click/drag actions'')]),
                      (''y'', JObj [(''type'', JStr ''number''),
                         (''description'', JStr ''Y coordinate for click/drag actions'')]),
                      (''button'', JObj [(''type'', JStr ''string''),
                         (''enum'', json_strings [''left'', ''right'', ''middle'']),
                         (''description'', JStr ''Mouse button for click actions'')]),
                      (''text'', JObj [(''type'', JStr ''string''),
                         (''description'', JStr ''Text to type'')]),
                      (''key'', JObj [(''type'', JStr ''string''),
                         (''description'', JStr (''Key to press (e.g., '' @ [CHR 0x27] @ ''Enter''
                            @ [CHR 0x27] @ '', '' @ [CHR 0x27] @ ''Escape'' @ [CHR 0x27] @ '', ''
                            @ [CHR 0x27] @ ''Tab'' @ [CHR 0x27] @ '')''))]),
                      (''scroll_direction'', JObj [(''type'', JStr ''string''),
                         (''enum'', json_strings [''up'', ''down'', ''left'', ''right'']),
                         (''description'', JStr ''Direction to scroll'')]),
                      (''scroll_amount'', JObj [(''type'', JStr ''number''),
                         (''description'', JStr ''Amount to scroll'')]),
                      (''duration'', JObj [(''type'', JStr ''number''),
                         (''description'', JStr ''Duration to wait in milliseconds'')])]),
                   (''required'', json_strings [''type''])])]),
             (''required'', json_strings [''action''])])])]"

text \<open>The one tool that \<^verbatim>\<open>GrokChatModel._generate\<close> offers when any tool is bound.\<close>

definition grok_tool :: json where
  "grok_tool =
     JObj [(''type'', JStr ''function''),
       (''function'', JObj [
          (''name'', JStr ''computer_use_preview''),
          (''description'', JStr ''Use a computer to take actions like clicking, typing, and taking screenshots''),
          (''parameters'', JObj [
             (''type'', JStr ''object''),
             (''properties'', JObj [
                (''action'', JObj [
                   (''type'', JStr ''object''),
                   (''description'', JStr ''The computer action to perform''),
                   (''properties'', JObj [
                      (''type'', JObj [(''type'', JStr ''string''), (''enum'', action_types),
                         (''description'', JStr ''The type of action to perform'')]),
                      (''x'', JObj [(''type'', JStr ''number''),
                         (''description'', JStr ''X coordinate for click/drag actions'')]),
                      (''y'', JObj [(''type'', JStr ''number''),
                         (''description'', JStr ''Y coordinate for click/drag actions'')]),
                      (''button'', JObj [(''type'', JStr ''string''),
                         (''enum'', json_strings [''left'', ''right'', ''middle''])]),
                      (''text'', JObj [(''type'', JStr ''string''),
                         (''description'', JStr ''Text to type'')]),
                      (''key'', JObj [(''type'', JStr ''string''),
                         (''description'', JStr ''Key to press'')]),
                      (''scroll_direction'', JObj [(''type'', JStr ''string''),
                         (''enum'', json_strings [''up'', ''down'', ''left'', ''right''])]),
                      (''scroll_amount'', JObj [(''type'', JStr ''number'')]),
                      (''duration'', JObj [(''type'', JStr ''number'')])]),
                   (''required'', json_strings [''type''])])]),
             (''required'', json_strings [''action''])])])]"

text \<open>
  \<^verbatim>\<open>callModelCustom\<close>. \<open>xaiApiKey\<close> and \<open>xaiBaseUrl\<close> are the environment variables
  \<^verbatim>\<open>XAI_API_KEY\<close> and \<^verbatim>\<open>XAI_BASE_URL\<close> (\<open>None\<close> when not set). The result is \<open>None\<close>
  for a response body outside the schema.
\<close>

definition callModelCustom ::
  "platform \<Rightarrow> string option \<Rightarrow> string option \<Rightarrow> configuration \<Rightarrow> message list
     \<Rightarrow> (js_error + ai_message) option" where
  "callModelCustom pf xaiApiKey xaiBaseUrl cfg messages =
     (case xaiApiKey of
        None \<Rightarrow> Some (Inl ConfigError)
      | Some key \<Rightarrow>
          if key = [] then Some (Inl ConfigError)
          else
            (case callModelCustom_messages pf cfg messages of
               Inl e \<Rightarrow> Some (Inl e)
             | Inr grokMessages \<Rightarrow>
                 map_option Inr
                   (createChatCompletion pf key
                      (case xaiBaseUrl of None \<Rightarrow> ''https://api.x.ai/v1'' | Some u \<Rightarrow> u)
                      grokMessages [createComputerUseTool (environment cfg)])))"

section \<open>The streaming assembler\<close>

text \<open>The events of the stream, at the schema of the provider.\<close>

record function_delta =
  fd_name :: "string option"
  fd_arguments :: "string option"

record tool_call_delta =
  tcd_index :: "nat option"
  tcd_id :: "string option"
  tcd_function :: "function_delta option"

record delta =
  d_content :: "string option"
  d_tool_calls :: "tool_call_delta list option"

record stream_choice =
  sc_delta :: "delta option"

record stream_event =
  se_id :: "string option"
  se_model :: "string option"
  se_usage :: "json option"
  se_choices :: "stream_choice list option"

definition decode_function_delta :: "(string \<times> json) list \<Rightarrow> function_delta option" where
  "decode_function_delta kvs =
     do {
       n \<leftarrow> decode_string (get_field kvs ''name'');
       a \<leftarrow> decode_string (get_field kvs ''arguments'');
       Some \<lparr>fd_name = n, fd_arguments = a\<rparr>
     }"

definition decode_tool_call_delta :: "(string \<times> json) list \<Rightarrow> tool_call_delta option" where
  "decode_tool_call_delta kvs =
     do {
       i \<leftarrow> decode_index (get_field kvs ''index'');
       d \<leftarrow> decode_string (get_field kvs ''id'');
       f \<leftarrow> decode_object decode_function_delta (get_field kvs ''function'');
       Some \<lparr>tcd_index = i, tcd_id = d, tcd_function = f\<rparr>
     }"

definition decode_delta :: "(string \<times> json) list \<Rightarrow> delta option" where
  "decode_delta kvs =
     do {
       c \<leftarrow> decode_string (get_field kvs ''content'');
       t \<leftarrow> decode_array (as_object decode_tool_call_delta) (get_field kvs ''tool_calls'');
       Some \<lparr>d_content = c, d_tool_calls = t\<rparr>
     }"

definition decode_stream_choice :: "(string \<times> json) list \<Rightarrow> stream_choice option" where
  "decode_stream_choice kvs =
     do {
       d \<leftarrow> decode_object decode_delta (get_field kvs ''delta'');
       Some \<lparr>sc_delta = d\<rparr>
     }"

definition decode_stream_event :: "json \<Rightarrow> stream_event option" where
  "decode_stream_event =
     as_object (\<lambda>kvs.
       do {
         i \<leftarrow> decode_string (get_field kvs ''id'');
         m \<leftarrow> decode_string (get_field kvs ''model'');
         cs \<leftarrow> decode_array (as_object decode_stream_choice) (get_field kvs ''choices'');
         Some \<lparr>se_id = i, se_model = m, se_usage = get_field kvs ''usage'', se_choices = cs\<rparr>
       })"

text \<open>\<^verbatim>\<open>if (s)\<close> for a string property that may be missing.\<close>

fun truthy_string :: "string option \<Rightarrow> bool" where
  "truthy_string None = False"
| "truthy_string (Some s) = (s \<noteq> [])"

definition empty_tool_call :: tool_call where
  "empty_tool_call = \<lparr>tc_id = [], tc_name = [], tc_args = JObj [], tc_argsString = None\<rparr>"

text \<open>
  \<^verbatim>\<open>while (accumulatedToolCalls.length <= index) accumulatedToolCalls.push({...})\<close>
\<close>

definition pad_tool_calls :: "tool_call list \<Rightarrow> nat \<Rightarrow> tool_call list" where
  "pad_tool_calls tcs index = tcs @ replicate (Suc index - length tcs) empty_tool_call"

text \<open>
  The argument text of a fragment in \<^verbatim>\<open>GrokChatModel._streamGenerate\<close>: text that parses
  on its own is spread into \<^verbatim>\<open>args\<close>; other text is appended to \<^verbatim>\<open>argsString\<close>, and
  \<^verbatim>\<open>args\<close> is replaced when that parses.
\<close>

definition add_arguments :: "tool_call \<Rightarrow> string \<Rightarrow> tool_call" where
  "add_arguments toolCall arguments =
     (case JSON_parse arguments of
        Some args \<Rightarrow> toolCall\<lparr>tc_args := js_spread (tc_args toolCall) args\<rparr>
      | None \<Rightarrow>
          (let argsString = (case tc_argsString toolCall of None \<Rightarrow> [] | Some a \<Rightarrow> a) @ arguments;
               toolCall' = toolCall\<lparr>tc_argsString := Some argsString\<rparr>
           in case JSON_parse argsString of
                Some v \<Rightarrow> toolCall'\<lparr>tc_args := v\<rparr>
              | None \<Rightarrow> toolCall'))"

text \<open>The identifier and the name of a fragment overwrite those of the invocation.\<close>

definition set_id_name :: "tool_call \<Rightarrow> tool_call_delta \<Rightarrow> tool_call" where
  "set_id_name toolCall d =
     (let t1 = (if truthy_string (tcd_id d) then toolCall\<lparr>tc_id := the (tcd_id d)\<rparr> else toolCall)
      in case tcd_function d of
           None \<Rightarrow> t1
         | Some f \<Rightarrow> if truthy_string (fd_name f) then t1\<lparr>tc_name := the (fd_name f)\<rparr> else t1)"

text \<open>The argument text of a fragment, when it has one that is not empty.\<close>

definition fragment_arguments :: "tool_call_delta \<Rightarrow> string option" where
  "fragment_arguments d =
     (case tcd_function d of
        None \<Rightarrow> None
      | Some f \<Rightarrow> if truthy_string (fd_arguments f) then fd_arguments f else None)"

definition fragment_index :: "tool_call_delta \<Rightarrow> nat" where
  "fragment_index d = (case tcd_index d of None \<Rightarrow> 0 | Some n \<Rightarrow> n)"

text \<open>One \<^verbatim>\<open>toolCallDelta\<close> in \<^verbatim>\<open>GrokChatModel._streamGenerate\<close>.\<close>

definition apply_fragment :: "tool_call list \<Rightarrow> tool_call_delta \<Rightarrow> tool_call list" where
  "apply_fragment tcs d =
     (let index = fragment_index d;
          tcs' = pad_tool_calls tcs index;
          toolCall = set_id_name (tcs' ! index) d
      in tcs'[index := (case fragment_arguments d of
                          None \<Rightarrow> toolCall
                        | Some a \<Rightarrow> add_arguments toolCall a)])"

text \<open>
  One \<^verbatim>\<open>toolCallDelta\<close> in \<^verbatim>\<open>GrokStreamingClient.streamChatCompletion\<close>: the argument
  text is parsed on its own, and the \<^verbatim>\<open>SyntaxError\<close> of \<^verbatim>\<open>JSON.parse\<close> leaves the
  loop over the fragments (\<open>True\<close>) after the identifier and the name have been set.
\<close>

definition client_apply_fragment ::
  "tool_call list \<Rightarrow> tool_call_delta \<Rightarrow> tool_call list \<times> bool" where
  "client_apply_fragment tcs d =
     (let index = fragment_index d;
          tcs' = pad_tool_calls tcs index;
          toolCall = set_id_name (tcs' ! index) d
      in case fragment_arguments d of
           None \<Rightarrow> (tcs'[index := toolCall], False)
         | Some a \<Rightarrow>
             (case JSON_parse a of
                None \<Rightarrow> (tcs'[index := toolCall], True)
              | Some args \<Rightarrow>
                  (tcs'[index := toolCall\<lparr>tc_args := js_spread (tc_args toolCall) args\<rparr>], False)))"

fun client_apply_fragments ::
  "tool_call list \<Rightarrow> tool_call_delta list \<Rightarrow> tool_call list \<times> bool" where
  "client_apply_fragments tcs [] = (tcs, False)"
| "client_apply_fragments tcs (d # ds) =
     (case client_apply_fragment tcs d of
        (tcs', True) \<Rightarrow> (tcs', True)
      | (tcs', False) \<Rightarrow> client_apply_fragments tcs' ds)"

text \<open>
  The accumulation buffers of one streaming call, and its effects. \<open>warnings\<close> lists the
  calls of \<^verbatim>\<open>console.warn("Failed to parse streaming data:", dataStr, error)\<close>, each by its
  \<^verbatim>\<open>dataStr\<close>. \<^verbatim>\<open>_streamGenerate\<close> also calls \<^verbatim>\<open>onLLMNewToken\<close> (\<open>newTokens\<close> lists the
  calls; the callback is taken not to raise); \<^verbatim>\<open>streamChatCompletion\<close> yields snapshots
  (\<open>yielded\<close> lists them, each as the buffers were when it was yielded).
\<close>

record accumulator =
  accumulatedContent :: string
  accumulatedToolCalls :: "tool_call list"
  responseMetadata :: response_metadata
  warnings :: "string list"

record generate_state = accumulator +
  newTokens :: "string list"

record client_state = accumulator +
  yielded :: "ai_message list"

definition initial_generate_state :: generate_state where
  "initial_generate_state =
     \<lparr>accumulatedContent = [], accumulatedToolCalls = [], responseMetadata = no_metadata,
      warnings = [], newTokens = []\<rparr>"

definition initial_client_state :: client_state where
  "initial_client_state =
     \<lparr>accumulatedContent = [], accumulatedToolCalls = [], responseMetadata = no_metadata,
      warnings = [], yielded = []\<rparr>"

text \<open>The \<^verbatim>\<open>catch\<close> of a line: one call of \<^verbatim>\<open>console.warn\<close>.\<close>

definition warn :: "string \<Rightarrow> 'a accumulator_scheme \<Rightarrow> 'a accumulator_scheme" where
  "warn dataStr st = st\<lparr>warnings := warnings st @ [dataStr]\<rparr>"

text \<open>The three \<^verbatim>\<open>if (jsonData.x) responseMetadata.x = jsonData.x\<close>.\<close>

definition update_metadata :: "stream_event \<Rightarrow> response_metadata \<Rightarrow> response_metadata" where
  "update_metadata ev md =
     (let md1 = (if truthy_string (se_id ev) then md\<lparr>md_id := se_id ev\<rparr> else md);
          md2 = (if truthy_string (se_model ev) then md1\<lparr>md_model := se_model ev\<rparr> else md1)
      in case se_usage ev of
           None \<Rightarrow> md2
         | Some u \<Rightarrow> if js_truthy u then md2\<lparr>md_usage := Some u\<rparr> else md2)"

definition snapshot :: "'a accumulator_scheme \<Rightarrow> ai_message" where
  "snapshot st =
     \<lparr>ai_content = accumulatedContent st, ai_tool_calls = accumulatedToolCalls st,
      ai_response_metadata = responseMetadata st\<rparr>"

text \<open>
  The body of the \<^verbatim>\<open>try\<close> of \<^verbatim>\<open>_streamGenerate\<close> after \<^verbatim>\<open>JSON.parse\<close>, on the event
  of the payload \<open>dataStr\<close>, with the \<^verbatim>\<open>catch\<close> of the line. A first choice without
  \<^verbatim>\<open>delta\<close> raises a \<^verbatim>\<open>TypeError\<close> after the metadata have been set; the \<^verbatim>\<open>catch\<close>
  logs it.
\<close>

definition process_event :: "string \<Rightarrow> stream_event \<Rightarrow> generate_state \<Rightarrow> generate_state" where
  "process_event dataStr ev st =
     (case se_choices ev of
        None \<Rightarrow> st
      | Some [] \<Rightarrow> st
      | Some (choice # rest) \<Rightarrow>
          (let st1 = st\<lparr>responseMetadata := update_metadata ev (responseMetadata st)\<rparr> in
           case sc_delta choice of
             None \<Rightarrow> warn dataStr st1
           | Some delta \<Rightarrow>
               (let st2 =
                      (if truthy_string (d_content delta) then
                         st1\<lparr>accumulatedContent := accumulatedContent st1 @ the (d_content delta),
                             newTokens := newTokens st1 @ [the (d_content delta)]\<rparr>
                       else st1)
                in case d_tool_calls delta of
                     None \<Rightarrow> st2
                   | Some ds \<Rightarrow>
                       st2\<lparr>accumulatedToolCalls :=
                             fold (\<lambda>d tcs. apply_fragment tcs d) ds (accumulatedToolCalls st2)\<rparr>)))"

text \<open>
  The same for \<^verbatim>\<open>streamChatCompletion\<close>: a snapshot is yielded after new content, and
  after the tool-call fragments unless one of them raised; what a fragment raises is
  logged by the \<^verbatim>\<open>catch\<close> of the line.
\<close>

definition client_process_event :: "string \<Rightarrow> stream_event \<Rightarrow> client_state \<Rightarrow> client_state" where
  "client_process_event dataStr ev st =
     (case se_choices ev of
        None \<Rightarrow> st
      | Some [] \<Rightarrow> st
      | Some (choice # rest) \<Rightarrow>
          (let st1 = st\<lparr>responseMetadata := update_metadata ev (responseMetadata st)\<rparr> in
           case sc_delta choice of
             None \<Rightarrow> warn dataStr st1
           | Some delta \<Rightarrow>
               (let st2 =
                      (if truthy_string (d_content delta) then
                         (let st' = st1\<lparr>accumulatedContent :=
                                          accumulatedContent st1 @ the (d_content delta)\<rparr>
                          in st'\<lparr>yielded := yielded st' @ [snapshot st']\<rparr>)
                       else st1)
                in case d_tool_calls delta of
                     None \<Rightarrow> st2
                   | Some ds \<Rightarrow>
                       (case client_apply_fragments (accumulatedToolCalls st2) ds of
                          (tcs, True) \<Rightarrow> warn dataStr (st2\<lparr>accumulatedToolCalls := tcs\<rparr>)
                        | (tcs, False) \<Rightarrow>
                            (let st' = st2\<lparr>accumulatedToolCalls := tcs\<rparr>
                             in st'\<lparr>yielded := yielded st' @ [snapshot st']\<rparr>)))))"

subsection \<open>Lines\<close>

text \<open>\<^verbatim>\<open>String.prototype.trim\<close>, on the white space that is a single byte.\<close>

definition is_js_space :: "char \<Rightarrow> bool" where
  "is_js_space c =
     (c = CHR '' '' \<or> c = CHR 0x09 \<or> c = CHR 0x0A \<or> c = CHR 0x0B \<or> c = CHR 0x0C \<or> c = CHR 0x0D)"

definition js_trim :: "string \<Rightarrow> string" where
  "js_trim s = rev (dropWhile is_js_space (rev (dropWhile is_js_space s)))"

text \<open>\<^verbatim>\<open>split('\n')\<close>: never empty; the last part is the text after the last newline.\<close>

fun split_lines :: "string \<Rightarrow> string list" where
  "split_lines [] = [[]]"
| "split_lines (c # cs) =
     (if c = CHR 0x0A then [] # split_lines cs
      else (case split_lines cs of [] \<Rightarrow> [[c]] | l # ls \<Rightarrow> (c # l) # ls))"

text \<open>
  What a line is, after \<^verbatim>\<open>trim\<close>: not a data line, the sentinel, a payload on which
  \<^verbatim>\<open>JSON.parse\<close> throws, the payload of an event with the event, or JSON outside the
  schema.
\<close>

datatype line_kind =
    NoData
  | Done
  | Malformed string
  | Event string stream_event
  | OutsideSchema

definition classify_line :: "string \<Rightarrow> line_kind" where
  "classify_line line =
     (let trimmedLine = js_trim line in
      if prefix ''data: '' trimmedLine then
        (let dataStr = drop 6 trimmedLine in
         if dataStr = ''[DONE]'' then Done
         else (case JSON_parse dataStr of
                 None \<Rightarrow> Malformed dataStr
               | Some jsonData \<Rightarrow>
                   (case decode_stream_event jsonData of
                      None \<Rightarrow> OutsideSchema
                    | Some ev \<Rightarrow> Event dataStr ev)))
      else NoData)"

text \<open>
  \<^verbatim>\<open>for (const line of lines)\<close> in \<^verbatim>\<open>_streamGenerate\<close>. The sentinel leaves this loop
  only (\<^verbatim>\<open>break\<close>): the lines after it in the same chunk are dropped, and the reading
  goes on. A payload that does not parse is logged by the \<^verbatim>\<open>catch\<close>, and the loop goes
  on with the next line. \<open>None\<close> is a line outside the schema.
\<close>

fun for_lines :: "generate_state \<Rightarrow> string list \<Rightarrow> generate_state option" where
  "for_lines st [] = Some st"
| "for_lines st (line # lines) =
     (case classify_line line of
        NoData \<Rightarrow> for_lines st lines
      | Done \<Rightarrow> Some st
      | Malformed dataStr \<Rightarrow> for_lines (warn dataStr st) lines
      | Event dataStr ev \<Rightarrow> for_lines (process_event dataStr ev st) lines
      | OutsideSchema \<Rightarrow> None)"

text \<open>
  \<^verbatim>\<open>while (true)\<close> in \<^verbatim>\<open>_streamGenerate\<close>, over the chunks that the reader delivers
  before it reports the end: the text after the last newline waits in \<open>buffer\<close>, and is
  dropped at the end.
\<close>

fun read_loop :: "string \<Rightarrow> generate_state \<Rightarrow> string list \<Rightarrow> generate_state option" where
  "read_loop buffer st [] = Some st"
| "read_loop buffer st (chunk # chunks) =
     (let lines = split_lines (buffer @ chunk) in
      case for_lines st (butlast lines) of
        None \<Rightarrow> None
      | Some st' \<Rightarrow> read_loop (last lines) st' chunks)"

text \<open>
  The same two functions for \<^verbatim>\<open>streamChatCompletion\<close>, where the sentinel yields the final
  message and returns from the generator (\<open>True\<close>).
\<close>

fun client_for_lines :: "client_state \<Rightarrow> string list \<Rightarrow> (client_state \<times> bool) option" where
  "client_for_lines st [] = Some (st, False)"
| "client_for_lines st (line # lines) =
     (case classify_line line of
        NoData \<Rightarrow> client_for_lines st lines
      | Done \<Rightarrow> Some (st\<lparr>yielded := yielded st @ [snapshot st]\<rparr>, True)
      | Malformed dataStr \<Rightarrow> client_for_lines (warn dataStr st) lines
      | Event dataStr ev \<Rightarrow> client_for_lines (client_process_event dataStr ev st) lines
      | OutsideSchema \<Rightarrow> None)"

fun client_read_loop ::
  "string \<Rightarrow> client_state \<Rightarrow> string list \<Rightarrow> (client_state \<times> bool) option" where
  "client_read_loop buffer st [] = Some (st, False)"
| "client_read_loop buffer st (chunk # chunks) =
     (let lines = split_lines (buffer @ chunk) in
      case client_for_lines st (butlast lines) of
        None \<Rightarrow> None
      | Some (st', True) \<Rightarrow> Some (st', True)
      | Some (st', False) \<Rightarrow> client_read_loop (last lines) st' chunks)"

subsection \<open>The two assemblers\<close>

text \<open>The final message of \<^verbatim>\<open>_streamGenerate\<close>.\<close>

definition final_message :: "generate_state \<Rightarrow> ai_message" where
  "final_message st =
     \<lparr>ai_content = accumulatedContent st,
      ai_tool_calls = filter (\<lambda>tc. tc_id tc \<noteq> [] \<and> tc_name tc \<noteq> []) (accumulatedToolCalls st),
      ai_response_metadata = responseMetadata st\<rparr>"

definition final_result :: "generate_state \<Rightarrow> chat_result" where
  "final_result st =
     \<lparr>cr_message = final_message st,
      cr_tokenUsage =
        Some (js_or (md_usage (responseMetadata st)) (usage (JNum 0 0) (JNum 0 0) (JNum 0 0))),
      cr_model = Some ''grok-2-vision-1212''\<rparr>"

text \<open>
  \<^verbatim>\<open>_streamGenerate\<close> on the chunks of a body that ends normally: the final message.
\<close>

definition assemble :: "string list \<Rightarrow> ai_message option" where
  "assemble chunks = map_option final_message (read_loop [] initial_generate_state chunks)"

text \<open>
  \<^verbatim>\<open>streamChatCompletion\<close> on the chunks of a body that ends normally: the messages it
  yields. Without the sentinel, the final message is yielded after the loop.
\<close>

definition client_assemble :: "string list \<Rightarrow> ai_message list option" where
  "client_assemble chunks =
     (case client_read_loop [] initial_client_state chunks of
        None \<Rightarrow> None
      | Some (st, True) \<Rightarrow> Some (yielded st)
      | Some (st, False) \<Rightarrow> Some (yielded st @ [snapshot st]))"

text \<open>
  \<^verbatim>\<open>_streamGenerate\<close>: a rejected \<^verbatim>\<open>fetch\<close>, a status that is not a success, a null
  body and a read that rejects are raised to the caller.
\<close>

definition streamGenerate ::
  "platform \<Rightarrow> string \<Rightarrow> string \<Rightarrow> wire_message list \<Rightarrow> json list \<Rightarrow> gen_options
     \<Rightarrow> (js_error + chat_result) option" where
  "streamGenerate pf xaiApiKey xaiBaseUrl xaiMessages grokTools options =
     (case http_post pf (xaiBaseUrl @ ''/chat/completions'') xaiApiKey
             (generate_body xaiMessages grokTools options True) of
        Rejected \<Rightarrow> Some (Inl NetworkError)
      | Response r \<Rightarrow>
          if \<not> ok r then Some (Inl (HttpError (status r) (statusText r)))
          else
            (case body r of
               None \<Rightarrow> Some (Inl NoBody)
             | Some chunks \<Rightarrow>
                 (case read_loop [] initial_generate_state chunks of
                    None \<Rightarrow> None
                  | Some st \<Rightarrow>
                      if aborted r then Some (Inl NetworkError) else Some (Inr (final_result st)))))"

text \<open>
  \<^verbatim>\<open>streamChatCompletion\<close>: the messages yielded, and the error that ends the generator
  if there is one.
\<close>

definition streamChatCompletion ::
  "platform \<Rightarrow> string \<Rightarrow> string \<Rightarrow> wire_message list \<Rightarrow> json list
     \<Rightarrow> (ai_message list \<times> js_error option) option" where
  "streamChatCompletion pf apiKey baseURL messages tools =
     (case http_post pf (baseURL @ ''/chat/completions'') apiKey (client_body messages tools True) of
        Rejected \<Rightarrow> Some ([], Some NetworkError)
      | Response r \<Rightarrow>
          if \<not> ok r then Some ([], Some (HttpError (status r) (statusText r)))
          else
            (case body r of
               None \<Rightarrow> Some ([], Some NoBody)
             | Some chunks \<Rightarrow>
                 (case client_read_loop [] initial_client_state chunks of
                    None \<Rightarrow> None
                  | Some (st, True) \<Rightarrow> Some (yielded st, None)
                  | Some (st, False) \<Rightarrow>
                      if aborted r then Some (yielded st, Some NetworkError)
                      else Some (yielded st @ [snapshot st], None))))"

section \<open>\<^verbatim>\<open>GrokChatModel._generate\<close>\<close>

record call_options =
  gen :: gen_options
  opt_stream :: "bool option"
  opt_tools :: "json list"

definition demo_result :: "nat \<Rightarrow> chat_result" where
  "demo_result now =
     \<lparr>cr_message =
        \<lparr>ai_content = [CHR 0xF0, CHR 0x9F, CHR 0x9A, CHR 0x80] @ '' Demo Mode: Grok-2-Vision-1212 integration is ready! In production, this would use your xAI API key to process requests. The system now supports computer control, bash commands, and real-time streaming. I'' @ [CHR 0x27] @ ''ll take a screenshot to show the sandbox environment is working.'',
         ai_tool_calls =
           [\<lparr>tc_id = ''demo_screenshot'', tc_name = ''computer_use_preview'',
             tc_args = screenshot_args, tc_argsString = None\<rparr>],
         ai_response_metadata =
           \<lparr>md_id = Some (''demo_response_'' @ show_nat now),
            md_model = Some ''grok-2-vision-1212'',
            md_usage = Some (usage (JNum 1 2) (JNum 15 1) (JNum 25 1)),
            md_finish_reason = None\<rparr>\<rparr>,
      cr_tokenUsage = Some (usage (JNum 1 2) (JNum 15 1) (JNum 25 1)),
      cr_model = Some ''grok-2-vision-1212''\<rparr>"

text \<open>
  The non-streaming request of \<^verbatim>\<open>_generate\<close> and the decoding of its response: what
  the rest of the \<^verbatim>\<open>try\<close> block returns or raises.
\<close>

definition generate_try ::
  "platform \<Rightarrow> string \<Rightarrow> string \<Rightarrow> wire_message list \<Rightarrow> json list \<Rightarrow> gen_options
     \<Rightarrow> (js_error + chat_result) option" where
  "generate_try pf xaiApiKey xaiBaseUrl xaiMessages grokTools options =
     (case http_post pf (xaiBaseUrl @ ''/chat/completions'') xaiApiKey
             (generate_body xaiMessages grokTools options False) of
        Rejected \<Rightarrow> Some (Inl NetworkError)
      | Response r \<Rightarrow>
          if \<not> ok r then Some (Inl (HttpError (status r) (statusText r)))
          else if aborted r then Some (Inl NetworkError)
          else
            (case JSON_parse (body_text r) of
               None \<Rightarrow> Some (Inl SyntaxError)
             | Some data \<Rightarrow>
                 (case decode_completion data of
                    None \<Rightarrow> None
                  | Some c \<Rightarrow>
                      (case fromWire True c of
                         Inl e \<Rightarrow> Some (Inl e)
                       | Inr aiMessage \<Rightarrow>
                           Some (Inr \<lparr>cr_message = aiMessage, cr_tokenUsage = cp_usage c,
                                      cr_model = cp_model c\<rparr>)))))"

text \<open>
  \<^verbatim>\<open>_generate\<close> of the first variant of \<^verbatim>\<open>grok-patch.ts\<close>. \<open>tools\<close> is
  \<^verbatim>\<open>this.bound?.tools || options.tools || []\<close> and \<open>onLLMNewToken\<close> says whether the run
  manager has the token callback. The promise of \<^verbatim>\<open>_streamGenerate\<close> is returned without
  \<^verbatim>\<open>await\<close>, so what it raises passes the \<^verbatim>\<open>catch\<close>. The second variant has no demo
  mode and no streaming: it is the last branch.
\<close>

definition generate ::
  "platform \<Rightarrow> string \<Rightarrow> string \<Rightarrow> message list \<Rightarrow> call_options \<Rightarrow> bool
     \<Rightarrow> (js_error + chat_result) option" where
  "generate pf xaiApiKey xaiBaseUrl messages options onLLMNewToken =
     (let xaiMessages = map generate_convert messages;
          grokTools = (if length (opt_tools options) > 0 then [grok_tool] else [])
      in if xaiApiKey = [] \<or> xaiApiKey = ''xai-demo-key-placeholder'' then
           Some (Inr (demo_result (date_now pf)))
         else if opt_stream options \<noteq> Some False \<and> onLLMNewToken then
           streamGenerate pf xaiApiKey xaiBaseUrl xaiMessages grokTools (gen options)
         else
           map_option (\<lambda>r. Inr (case r of Inl error \<Rightarrow> generate_fallback | Inr result \<Rightarrow> result))
             (generate_try pf xaiApiKey xaiBaseUrl xaiMessages grokTools (gen options)))"

section \<open>Sample inputs\<close>

text \<open>Inputs for the evaluation of the model at concrete values.\<close>

definition tool_result :: "string \<Rightarrow> message" where
  "tool_result c =
     \<lparr>msg_type = ''tool'', msg_content = Text c, msg_tool_calls = [],
      msg_tool_call_id = ''call_1'', msg_kwargs_type = None\<rparr>"

definition screenshot_result :: "string \<Rightarrow> message" where
  "screenshot_result c = (tool_result c)\<lparr>msg_kwargs_type := Some ''computer_call_output''\<rparr>"

definition human :: "string \<Rightarrow> message" where
  "human c =
     \<lparr>msg_type = ''human'', msg_content = Text c, msg_tool_calls = [], msg_tool_call_id = [],
      msg_kwargs_type = None\<rparr>"

text \<open>
  A platform that answers every \<^verbatim>\<open>GET\<close> with \<open>got\<close> and every \<^verbatim>\<open>POST\<close> with
  \<open>posted\<close>.
\<close>

definition stub_platform :: "fetch_outcome \<Rightarrow> fetch_outcome \<Rightarrow> platform" where
  "stub_platform got posted =
     \<lparr>is_url = (\<lambda>s. prefix ''https://'' s \<or> prefix ''data:'' s),
      http_get = (\<lambda>u. got),
      base64 = (\<lambda>bytes. ''iVBORw=='' ),
      stringify = (\<lambda>j. ''{}''),
      http_post = (\<lambda>url key data. posted),
      date_now = 0\<rparr>"

definition ok_response :: "string list \<Rightarrow> fetch_outcome" where
  "ok_response chunks =
     Response \<lparr>ok = True, status = 200, statusText = ''OK'', body = Some chunks, aborted = False\<rparr>"

text \<open>
  A platform that answers every \<^verbatim>\<open>POST\<close> with a completion whose content lists the
  roles of the messages of the request, so that the answer shows what was sent.
\<close>

definition echo_platform :: "fetch_outcome \<Rightarrow> platform" where
  \<open>echo_platform got =
     (stub_platform got Rejected)
       \<lparr>http_post := (\<lambda>url key data.
          ok_response [''{"choices":[{"message":{"content":"''
                       @ concat (map (\<lambda>m. role m @ '' '') (rb_messages data))
                       @ ''"}}]}''])\<rparr>\<close>

section \<open>The failures of the non-streaming call\<close>

text \<open>
  A rejected \<^verbatim>\<open>fetch\<close>, a status that is not a success, a body whose read rejects, a
  body that is not JSON, and a body inside the schema whose decoding raises (no first
  choice, no message, a tool call without \<^verbatim>\<open>function\<close>, arguments that do not parse).
\<close>

definition call_fails :: "fetch_outcome \<Rightarrow> bool" where
  "call_fails outcome =
     (case outcome of
        Rejected \<Rightarrow> True
      | Response r \<Rightarrow>
          \<not> ok r \<or> aborted r
          \<or> (case JSON_parse (body_text r) of
                None \<Rightarrow> True
              | Some data \<Rightarrow>
                  (case decode_completion data of
                     None \<Rightarrow> False
                   | Some c \<Rightarrow> isl (fromWire True c))))"

text \<open>A simulated status 500.\<close>

definition server_error :: fetch_outcome where
  "server_error =
     Response \<lparr>ok = False, status = 500, statusText = ''Internal Server Error'', body = Some [],
               aborted = False\<rparr>"

text \<open>
  A response body whose only tool call has arguments that are not JSON.
\<close>

definition bad_arguments_body :: string where
  \<open>bad_arguments_body =
     ''{"id":"r1","choices":[{"message":{"content":"ok","tool_calls":[{"id":"call_1","type":"function","function":{"name":"computer_use","arguments":"{bad"}}]}}]}''\<close>

section \<open>Fragment sequences\<close>

text \<open>
  The identifier and the name that a fragment supplies (one that is not empty), and the
  identifiers and names that a sequence of fragments supplies, in order.
\<close>

definition fragment_id :: "tool_call_delta \<Rightarrow> string option" where
  "fragment_id d = (if truthy_string (tcd_id d) then tcd_id d else None)"

definition fragment_name :: "tool_call_delta \<Rightarrow> string option" where
  "fragment_name d =
     (case tcd_function d of
        None \<Rightarrow> None
      | Some f \<Rightarrow> if truthy_string (fd_name f) then fd_name f else None)"

definition supplied_ids :: "tool_call_delta list \<Rightarrow> string list" where
  "supplied_ids ds = List.map_filter fragment_id ds"

definition supplied_names :: "tool_call_delta list \<Rightarrow> string list" where
  "supplied_names ds = List.map_filter fragment_name ds"

text \<open>
  The invocation at an index of the list, the empty invocation past its end; whether the
  argument text of a fragment, if it has one, parses on its own; and the fragments of a
  sequence that carry a given index.
\<close>

definition slot :: "tool_call list \<Rightarrow> nat \<Rightarrow> tool_call" where
  "slot tcs j = (if j < length tcs then tcs ! j else empty_tool_call)"

definition fragment_parses :: "tool_call_delta \<Rightarrow> bool" where
  "fragment_parses d = (case fragment_arguments d of None \<Rightarrow> True | Some a \<Rightarrow> JSON_parse a \<noteq> None)"

definition with_index :: "nat \<Rightarrow> tool_call_delta list \<Rightarrow> tool_call_delta list" where
  "with_index i ds = filter (\<lambda>d. fragment_index d = i) ds"

text \<open>An event that carries the fragments \<open>ds\<close> and nothing else.\<close>

definition fragments_event :: "tool_call_delta list \<Rightarrow> stream_event" where
  "fragments_event ds =
     \<lparr>se_id = None, se_model = None, se_usage = None,
      se_choices = Some [\<lparr>sc_delta = Some \<lparr>d_content = None, d_tool_calls = Some ds\<rparr>\<rparr>]\<rparr>"

definition id_name :: "tool_call \<Rightarrow> string \<times> string" where
  "id_name tc = (tc_id tc, tc_name tc)"

definition index_only :: "nat \<Rightarrow> tool_call_delta" where
  "index_only i = \<lparr>tcd_index = Some i, tcd_id = None, tcd_function = None\<rparr>"

definition id_fragment :: "nat \<Rightarrow> string \<Rightarrow> tool_call_delta" where
  "id_fragment i x = \<lparr>tcd_index = Some i, tcd_id = Some x, tcd_function = None\<rparr>"

definition name_fragment :: "nat \<Rightarrow> string \<Rightarrow> string \<Rightarrow> tool_call_delta" where
  "name_fragment i n a =
     \<lparr>tcd_index = Some i, tcd_id = None,
      tcd_function = Some \<lparr>fd_name = Some n, fd_arguments = Some a\<rparr>\<rparr>"

text \<open>
  The lines of a stream as text. \<open>quote_json\<close> writes a string as a JSON string literal.
\<close>

definition quote_json :: "string \<Rightarrow> string" where
  "quote_json s =
     [dquote] @ concat (map (\<lambda>c. if c = dquote \<or> c = backslash then [backslash, c] else [c]) s)
     @ [dquote]"

definition partial_chunk :: string where
  \<open>partial_chunk = ''data: {"choices":[{"delta":{"tool_calls":[{"index":0}]}}]}'' @ [CHR 0x0A]\<close>

definition done_chunk :: string where
  "done_chunk = ''data: [DONE]'' @ [CHR 0x0A]"

definition call_chunk :: string where
  \<open>call_chunk = ''data: {"id":"r1","choices":[{"delta":{"tool_calls":[{"index":0,"id":"c1","function":{"name":"computer_use"}}]}}]}'' @ [CHR 0x0A]\<close>

definition arguments_chunk :: "string \<Rightarrow> string" where
  \<open>arguments_chunk a =
     ''data: {"choices":[{"delta":{"tool_calls":[{"index":0,"function":{"arguments":''
     @ quote_json a @ ''}}]}}]}'' @ [CHR 0x0A]\<close>

text \<open>
  An event with two fragments of the index 0: argument text that does not parse on its
  own, then the identifier and the name.
\<close>

definition late_id_chunk :: string where
  \<open>late_id_chunk = ''data: {"choices":[{"delta":{"tool_calls":[{"index":0,"function":{"arguments":"{x"}},{"index":0,"id":"c1","function":{"name":"computer_use"}}]}}]}'' @ [CHR 0x0A]\<close>

text \<open>
  Two tool calls: a fragment with the index 1 only, then an event with argument text for
  the index 0 and the identifier and the name for the index 1.
\<close>

definition second_index_chunk :: string where
  \<open>second_index_chunk = ''data: {"choices":[{"delta":{"tool_calls":[{"index":1}]}}]}'' @ [CHR 0x0A]\<close>

definition parallel_chunk :: string where
  \<open>parallel_chunk = ''data: {"choices":[{"delta":{"tool_calls":[{"index":0,"function":{"arguments":"{x"}},{"index":1,"id":"c2","function":{"name":"computer_use"}}]}}]}'' @ [CHR 0x0A]\<close>




section \<open>Properties of \<^verbatim>\<open>JSON.parse\<close>\<close>

lemma parse_string_body_consumes:
  "parse_string_body cs = Some (x, r) \<Longrightarrow> length r < length cs"
proof (induction cs arbitrary: x r rule: parse_string_body.induct)
  case 1
  then show ?case by simp
next
  case (2 c cs)
  then show ?case
    by (auto split: if_splits list.splits option.splits prod.splits) fastforce+
qed

lemma parse_fraction_consumes:
  "parse_fraction s = Some (fp, r) \<Longrightarrow> length r \<le> length s"
  by (auto simp: parse_fraction_def Let_def split: list.splits if_splits
           intro: le_SucI length_dropWhile_le)

lemma parse_exponent_consumes:
  "parse_exponent s = Some (ex, r) \<Longrightarrow> length r \<le> length s"
proof (cases s)
  case Nil
  then show "parse_exponent s = Some (ex, r) \<Longrightarrow> length r \<le> length s"
    by (simp add: parse_exponent_def)
next
  case (Cons c cs)
  assume p: "parse_exponent s = Some (ex, r)"
  show "length r \<le> length s"
  proof (cases "c = CHR ''e'' \<or> c = CHR ''E''")
    case False
    with p Cons show ?thesis by (auto simp: parse_exponent_def)
  next
    case True
    obtain neg t where nt: "(case cs of
                      [] \<Rightarrow> (False, cs)
                    | g # r' \<Rightarrow>
                        if g = CHR ''-'' then (True, r')
                        else if g = CHR ''+'' then (False, r')
                        else (False, cs)) = (neg, t)"
      by (cases "(case cs of
                      [] \<Rightarrow> (False, cs)
                    | g # r' \<Rightarrow>
                        if g = CHR ''-'' then (True, r')
                        else if g = CHR ''+'' then (False, r')
                        else (False, cs))") auto
    then have "length t \<le> length cs"
      by (auto split: list.splits if_splits)
    moreover from p Cons True nt have "r = dropWhile is_digit t"
      by (auto simp: parse_exponent_def Let_def split: if_splits)
    ultimately show ?thesis
      using Cons length_dropWhile_le [of is_digit t] by simp
  qed
qed

lemma parse_number_consumes:
  assumes "parse_number s = Some (v, r)"
  shows "length r < length s"
proof -
  define neg where "neg = (case s of [] \<Rightarrow> False | c # cs \<Rightarrow> c = CHR ''-'')"
  define s1 where "s1 = (if neg then tl s else s)"
  from assms obtain fp s3 ex where
    ip: "takeWhile is_digit s1 \<noteq> []"
    and f: "parse_fraction (dropWhile is_digit s1) = Some (fp, s3)"
    and e: "parse_exponent s3 = Some (ex, r)"
    by (auto simp: parse_number_def Let_def neg_def s1_def split: if_splits option.splits)
  have "length (dropWhile is_digit s1) < length s1"
    using ip by (cases s1) (auto simp: le_imp_less_Suc length_dropWhile_le split: if_splits)
  moreover have "length s1 \<le> length s"
    by (simp add: s1_def)
  ultimately show ?thesis
    using parse_fraction_consumes [OF f] parse_exponent_consumes [OF e] by simp
qed

text \<open>Every value that is read takes at least one character of the input.\<close>

lemma parse_consumes:
  "\<forall>v r. parse_value s = Some (v, r) \<longrightarrow> length r < length s"
  "\<forall>v r. parse_elements acc s = Some (v, r) \<longrightarrow> length r < length s"
  "\<forall>v r. parse_members kvs s = Some (v, r) \<longrightarrow> length r < length s"
proof (induction s and acc s and kvs s rule: parse_value_parse_elements_parse_members.induct)
  case (1 s)
  show ?case
  proof (intro allI impI)
    fix v r
    assume pv: "parse_value s = Some (v, r)"
    then obtain c cs where sk: "skip_ws s = c # cs"
      by (cases "skip_ws s") (simp_all add: parse_value.simps [of s])
    then have len: "length cs < length s"
      by (rule skip_ws_Cons)
    consider (obj) "c = CHR ''{''" | (arr) "c \<noteq> CHR ''{''" "c = CHR ''[''"
      | (other) "c \<noteq> CHR ''{''" "c \<noteq> CHR ''[''"
      by blast
    then show "length r < length s"
    proof cases
      case obj
      with pv sk obtain d r0 where sk2: "skip_ws cs = d # r0"
        by (cases "skip_ws cs") (simp_all add: parse_value.simps [of s])
      show ?thesis
      proof (cases "d = CHR ''}''")
        case True
        with pv sk obj sk2 have "r = r0"
          by (simp add: parse_value.simps [of s])
        with skip_ws_Cons [OF sk2] len show ?thesis by simp
      next
        case False
        with pv sk obj sk2 have "parse_members [] cs = Some (v, r)"
          by (simp add: parse_value.simps [of s])
        with "1.IH"(1) [OF sk obj sk2 False] len show ?thesis by fastforce
      qed
    next
      case arr
      with pv sk obtain d r0 where sk2: "skip_ws cs = d # r0"
        by (cases "skip_ws cs") (simp_all add: parse_value.simps [of s])
      show ?thesis
      proof (cases "d = CHR '']''")
        case True
        with pv sk arr sk2 have "r = r0"
          by (simp add: parse_value.simps [of s])
        with skip_ws_Cons [OF sk2] len show ?thesis by simp
      next
        case False
        with pv sk arr sk2 have "parse_elements [] cs = Some (v, r)"
          by (simp add: parse_value.simps [of s])
        with "1.IH"(2) [OF sk arr sk2 False] len show ?thesis by fastforce
      qed
    next
      case other
      with pv sk have leaf:
        "(if c = dquote then map_option (\<lambda>(x, r). (JStr x, r)) (parse_string_body cs)
          else if c = CHR ''-'' \<or> is_digit c then parse_number (c # cs)
          else if prefix ''true'' (c # cs) then Some (JBool True, drop 4 (c # cs))
          else if prefix ''false'' (c # cs) then Some (JBool False, drop 5 (c # cs))
          else if prefix ''null'' (c # cs) then Some (JNull, drop 4 (c # cs))
          else None) = Some (v, r)"
        by (simp add: parse_value.simps [of s])
      have "length r \<le> length cs"
      proof (cases "c = dquote")
        case True
        with leaf obtain x where "parse_string_body cs = Some (x, r)"
          by auto
        then show ?thesis
          using parse_string_body_consumes by fastforce
      next
        case False
        show ?thesis
        proof (cases "c = CHR ''-'' \<or> is_digit c")
          case True
          with leaf \<open>c \<noteq> dquote\<close> have "parse_number (c # cs) = Some (v, r)"
            by simp
          from parse_number_consumes [OF this] show ?thesis by simp
        next
          case False
          with leaf \<open>c \<noteq> dquote\<close> have "r = drop 4 (c # cs) \<or> r = drop 5 (c # cs)"
            by (auto split: if_splits)
          then show ?thesis by auto
        qed
      qed
      with len show ?thesis by simp
    qed
  qed
next
  case (2 acc s)
  show ?case
  proof (intro allI impI)
    fix v r
    assume pe: "parse_elements acc s = Some (v, r)"
    then obtain x y where pv: "parse_value s = Some (x, y)"
      by (cases "parse_value s") (auto simp: parse_elements.simps [of acc s])
    with "2.IH"(1) have ylen: "length y < length s"
      by simp
    with pe pv obtain d r' where sk: "skip_ws y = d # r'"
      by (cases "skip_ws y") (simp_all add: parse_elements.simps [of acc s])
    from skip_ws_Cons [OF sk] ylen have rlen: "length r' < length s"
      by simp
    show "length r < length s"
    proof (cases "d = CHR '',''")
      case True
      with pe pv ylen sk have "parse_elements (acc @ [x]) r' = Some (v, r)"
        by (simp add: parse_elements.simps [of acc s])
      with "2.IH"(2) [OF pv refl ylen sk True] rlen show ?thesis by fastforce
    next
      case False
      with pe pv ylen sk have "r = r'"
        by (simp add: parse_elements.simps [of acc s] split: if_splits)
      with rlen show ?thesis by simp
    qed
  qed
next
  case (3 kvs s)
  show ?case
  proof (intro allI impI)
    fix v r
    assume pm: "parse_members kvs s = Some (v, r)"
    then obtain q ks where sk: "skip_ws s = q # ks"
      by (cases "skip_ws s") (simp_all add: parse_members.simps [of kvs s])
    with pm have q: "q = dquote"
      by (simp add: parse_members.simps [of kvs s] split: if_splits)
    with pm sk obtain k r0 where key: "parse_string_body ks = Some (k, r0)"
      by (cases "parse_string_body ks") (auto simp: parse_members.simps [of kvs s])
    with pm sk q obtain col r1 where sk1: "skip_ws r0 = col # r1"
      by (cases "skip_ws r0") (simp_all add: parse_members.simps [of kvs s])
    with pm sk q key have col: "col = CHR '':'' \<and> length r1 < length s"
      by (simp add: parse_members.simps [of kvs s] split: if_splits)
    with pm sk q key sk1 obtain x y where pv: "parse_value r1 = Some (x, y)"
      by (cases "parse_value r1") (auto simp: parse_members.simps [of kvs s])
    with "3.IH"(1) [OF sk q key refl sk1 col] have ylen: "length y < length r1"
      by simp
    with pm sk q key sk1 col pv obtain d r' where sk2: "skip_ws y = d # r'"
      by (cases "skip_ws y") (simp_all add: parse_members.simps [of kvs s])
    from skip_ws_Cons [OF sk2] ylen col have rlen: "length r' < length s"
      by simp
    show "length r < length s"
    proof (cases "d = CHR '',''")
      case True
      with pm sk q key sk1 col pv ylen sk2
      have "parse_members (obj_set k x kvs) r' = Some (v, r)"
        by (simp add: parse_members.simps [of kvs s])
      with "3.IH"(2) [OF sk q key refl sk1 col pv refl ylen sk2 True] rlen
      show ?thesis by fastforce
    next
      case False
      with pm sk q key sk1 col pv ylen sk2 have "r = r'"
        by (simp add: parse_members.simps [of kvs s] split: if_splits)
      with rlen show ?thesis by simp
    qed
  qed
qed

lemma parse_value_consumes: "parse_value s = Some (v, r) \<Longrightarrow> length r < length s"
  using parse_consumes(1) by blast

text \<open>
  So the tests on the lengths never fail: the parser satisfies its equations without them.
\<close>

lemma parse_elements_unguarded:
  "parse_elements acc s =
     (case parse_value s of
        None \<Rightarrow> None
      | Some (v, r) \<Rightarrow>
          (case skip_ws r of
             [] \<Rightarrow> None
           | d # r' \<Rightarrow>
               if d = CHR '','' then parse_elements (acc @ [v]) r'
               else if d = CHR '']'' then Some (JArr (acc @ [v]), r')
               else None))"
  by (subst parse_elements.simps)
     (auto split: option.splits dest: parse_value_consumes)

lemma parse_members_unguarded:
  "parse_members acc s =
     (case skip_ws s of
        [] \<Rightarrow> None
      | q # ks \<Rightarrow>
          if q = dquote then
            (case parse_string_body ks of
               None \<Rightarrow> None
             | Some (k, r0) \<Rightarrow>
                 (case skip_ws r0 of
                    [] \<Rightarrow> None
                  | col # r1 \<Rightarrow>
                      if col = CHR '':'' then
                        (case parse_value r1 of
                           None \<Rightarrow> None
                         | Some (v, r) \<Rightarrow>
                             (case skip_ws r of
                                [] \<Rightarrow> None
                              | d # r' \<Rightarrow>
                                  if d = CHR '','' then parse_members (obj_set k v acc) r'
                                  else if d = CHR ''}'' then Some (JObj (obj_set k v acc), r')
                                  else None))
                      else None))
          else None)"
proof -
  have "length r1 < length s"
    if "skip_ws s = q # ks" "parse_string_body ks = Some (k, r0)" "skip_ws r0 = col # r1"
    for q ks k r0 col r1
    using skip_ws_Cons [OF that(1)] parse_string_body_consumes [OF that(2)]
      skip_ws_Cons [OF that(3)]
    by simp
  then show ?thesis
    by (subst parse_members.simps)
       (auto split: option.splits list.splits dest: parse_value_consumes)
qed

section \<open>Properties of the message translation\<close>

lemma content_or_empty_id [simp]: "content_or_empty c = c"
  by (cases c) simp_all


text \<open>
  C4 as stated fails on the conversion inside \<^verbatim>\<open>GrokChatModel._generate\<close>: a tool
  result that is not an image leaves it with the role \<^verbatim>\<open>user\<close> and without
  \<^verbatim>\<open>tool_call_id\<close>.
\<close>

theorem toWire_tool_result_counterexample:
  "generate_convert (tool_result ''done'') = plain_wire ''user'' (Text ''done'')
   \<and> generate_convert (tool_result ''done'')
       \<noteq> \<lparr>role = ''tool'', content = Text ''done'', tool_calls = None,
           tool_call_id = Some ''call_1''\<rparr>"
  by (simp add: generate_convert_def tool_result_def plain_wire_def)

text \<open>
  C4, amended. For every tool-result message: when the content is a string that starts
  with \<^verbatim>\<open>data:image/\<close>, \<^verbatim>\<open>convertMessageToGrokFormat\<close> and the conversion inside
  \<^verbatim>\<open>GrokChatModel._generate\<close> emit a user-role message with the single image-url part;
  otherwise \<^verbatim>\<open>convertMessageToGrokFormat\<close> emits exactly the tool-role message with the
  \<^verbatim>\<open>tool_call_id\<close> and the content, and the conversion inside \<^verbatim>\<open>_generate\<close> emits a
  user-role message with the content. The conversion inside \<^verbatim>\<open>callModelStreamingCustom\<close>
  emits a user-role message with the content in both cases.
\<close>

theorem toWire_tool_result:
  assumes "msg_type m = ''tool''"
  shows "(is_image_data_uri (msg_content m) \<longrightarrow>
           convertMessageToGrokFormat sf m
             = plain_wire ''user'' (Parts [image_url_part (the (content_string (msg_content m)))])
         \<and> generate_convert m
             = plain_wire ''user'' (Parts [image_url_part (the (content_string (msg_content m)))]))
       \<and> (\<not> is_image_data_uri (msg_content m) \<longrightarrow>
           convertMessageToGrokFormat sf m
             = \<lparr>role = ''tool'', content = msg_content m, tool_calls = None,
                tool_call_id = Some (msg_tool_call_id m)\<rparr>
         \<and> generate_convert m = plain_wire ''user'' (msg_content m))
       \<and> streaming_convert m = plain_wire ''user'' (msg_content m)"
proof -
  have types: "msg_type m \<noteq> ''system''" "msg_type m \<noteq> ''human''" "msg_type m \<noteq> ''ai''"
    using assms by simp_all
  show ?thesis
  proof (cases "msg_content m")
    case (Text s)
    with assms types show ?thesis
      by (simp add: convertMessageToGrokFormat_def generate_convert_def streaming_convert_def)
  next
    case (Parts ps)
    with assms types show ?thesis
      by (simp add: convertMessageToGrokFormat_def generate_convert_def streaming_convert_def)
  qed
qed

theorem toWire_tool_result_witness:
  "convertMessageToGrokFormat (\<lambda>j. ''{}'') (tool_result ''data:image/png;base64,AAAA'')
     = plain_wire ''user'' (Parts [image_url_part ''data:image/png;base64,AAAA''])
   \<and> convertMessageToGrokFormat (\<lambda>j. ''{}'') (tool_result ''done'')
     = \<lparr>role = ''tool'', content = Text ''done'', tool_calls = None,
        tool_call_id = Some ''call_1''\<rparr>
   \<and> generate_convert (tool_result ''data:image/png;base64,AAAA'')
     = plain_wire ''user'' (Parts [image_url_part ''data:image/png;base64,AAAA''])"
  using toWire_tool_result [of "tool_result ''data:image/png;base64,AAAA''" "\<lambda>j. ''{}''"]
        toWire_tool_result [of "tool_result ''done''" "\<lambda>j. ''{}''"]
  by (simp add: tool_result_def)

section \<open>Properties of the image resolution and of the selection of messages\<close>

lemma update_all_error:
  "m \<in> set ms \<Longrightarrow> conditionallyUpdateToolMessageContent pf m = Inl e
     \<Longrightarrow> \<exists>e'. update_all pf ms = Inl e'"
  by (induction ms) (auto split: sum.splits)

lemma conditionallyUpdate_error:
  "conditionallyUpdateToolMessageContent pf m = Inl e \<Longrightarrow> e = NetworkError"
  by (auto simp: conditionallyUpdateToolMessageContent_def imageUrlToBase64_def
           split: if_splits sum.splits fetch_outcome.splits)

lemma update_all_NetworkError:
  "update_all pf ms = Inl e \<Longrightarrow> e = NetworkError"
  by (induction ms arbitrary: e) (auto split: sum.splits dest: conditionallyUpdate_error)

lemma update_all_length:
  "update_all pf ms = Inr ms' \<Longrightarrow> length ms' = length ms"
  by (induction ms arbitrary: ms') (auto split: sum.splits)

lemma update_all_nth:
  "update_all pf ms = Inr ms' \<Longrightarrow> i < length ms
     \<Longrightarrow> conditionallyUpdateToolMessageContent pf (ms ! i) = Inr (ms' ! i)"
proof (induction ms arbitrary: ms' i)
  case Nil
  then show ?case by simp
next
  case (Cons m ms)
  then show ?case
    by (cases i) (auto split: sum.splits)
qed

lemma createChatCompletion_posts:
  "createChatCompletion pf apiKey baseURL messages tools
     = completion_of (http_post pf (baseURL @ ''/chat/completions'') apiKey
                        (client_body messages tools False))"
  by (simp add: createChatCompletion_def createChatCompletion_try_def completion_of_def
           split: sum.split option.split)

lemma callModelCustom_posts:
  assumes "key \<noteq> []"
  shows "callModelCustom pf (Some key) base cfg messages
     = (case callModelCustom_messages pf cfg messages of
          Inl e \<Rightarrow> Some (Inl e)
        | Inr sent \<Rightarrow>
            map_option Inr
              (completion_of
                 (http_post pf
                    ((case base of None \<Rightarrow> ''https://api.x.ai/v1'' | Some u \<Rightarrow> u)
                     @ ''/chat/completions'')
                    key (client_body sent [createComputerUseTool (environment cfg)] False))))"
  using assms by (simp add: callModelCustom_def createChatCompletion_posts split: sum.split)

lemma callModelCustom_empty_history:
  "key \<noteq> [] \<Longrightarrow> callModelCustom pf (Some key) base cfg [] = Some (Inl TypeError)"
  by (simp add: callModelCustom_def callModelCustom_messages_def)

text \<open>
  The answers of the platform \<open>echo_platform\<close>, decoded.
\<close>

lemma echo_user:
  \<open>map_option ai_content
     (completion_of (ok_response [''{"choices":[{"message":{"content":"user "}}]}'']))
   = Some ''user ''\<close>
  by code_simp

lemma echo_system_user_user:
  \<open>map_option ai_content
     (completion_of (ok_response [''{"choices":[{"message":{"content":"system user user "}}]}'']))
   = Some ''system user user ''\<close>
  by code_simp

lemma echo_system_user_tool:
  \<open>map_option ai_content
     (completion_of (ok_response [''{"choices":[{"message":{"content":"system user tool "}}]}'']))
   = Some ''system user tool ''\<close>
  by code_simp

lemma echo_tool:
  \<open>map_option ai_content
     (completion_of (ok_response [''{"choices":[{"message":{"content":"tool "}}]}'']))
   = Some ''tool ''\<close>
  by code_simp

text \<open>
  C6 as stated fails: a tool result whose content is a URL and that does not carry
  \<^verbatim>\<open>additional_kwargs.type = "computer_call_output"\<close> is not resolved, and the URL reaches
  the wire.
\<close>

theorem bare_url_counterexample:
  "callModelCustom_messages (stub_platform Rejected Rejected)
     \<lparr>zdrEnabled = True, cfg_prompt = None, environment = ''web''\<rparr>
     [tool_result ''https://example.com/shot.png'']
   = Inr [\<lparr>role = ''tool'', content = Text ''https://example.com/shot.png'', tool_calls = None,
           tool_call_id = Some ''call_1''\<rparr>]"
  by (simp add: callModelCustom_messages_def stub_platform_def tool_result_def
        isComputerCallToolMessage_def
        conditionallyUpdateToolMessageContent_def convertMessageToGrokFormat_def)

text \<open>
  C6, amended. For every tool-result message whose content is a string \<open>u\<close>: when the
  message is tagged \<^verbatim>\<open>computer_call_output\<close> and \<^verbatim>\<open>new URL(u)\<close> succeeds, the resource
  is fetched and the content becomes \<^verbatim>\<open>data:image/png;base64,\<close> followed by the encoded
  bytes, which the translator emits as an image part, and that part is what
  \<^verbatim>\<open>callModelCustom\<close> posts; when that fetch or the read of its body rejects,
  \<^verbatim>\<open>callModelCustom\<close> raises the error to its caller wherever it resolves the message
  (nothing is posted, and no fallback message is returned). A message without the tag, or
  whose content is not a URL, is passed on unchanged: the URL of an untagged message is
  posted in a tool-role message.
\<close>

theorem tool_image_resolution:
  assumes "msg_type m = ''tool''" and "msg_content m = Text u" and "key \<noteq> []"
  shows "(msg_kwargs_type m = Some ''computer_call_output'' \<and> is_url pf u
            \<and> http_get pf u = Response r \<and> \<not> aborted r \<longrightarrow>
          conditionallyUpdateToolMessageContent pf m
            = Inr (m\<lparr>msg_content := Text (''data:image/png;base64,'' @ base64 pf (body_text r))\<rparr>)
          \<and> convertMessageToGrokFormat sf
               (m\<lparr>msg_content := Text (''data:image/png;base64,'' @ base64 pf (body_text r))\<rparr>)
            = plain_wire ''user''
                (Parts [image_url_part (''data:image/png;base64,'' @ base64 pf (body_text r))])
          \<and> (messages \<noteq> [] \<and> last messages = m \<and> \<not> zdrEnabled cfg \<longrightarrow>
               callModelCustom pf (Some key) base cfg messages
                 = map_option Inr
                     (completion_of
                        (http_post pf
                           ((case base of None \<Rightarrow> ''https://api.x.ai/v1'' | Some b \<Rightarrow> b)
                            @ ''/chat/completions'')
                           key
                           (client_body
                              [plain_wire ''user''
                                 (Parts [image_url_part
                                    (''data:image/png;base64,'' @ base64 pf (body_text r))])]
                              [createComputerUseTool (environment cfg)] False)))))
       \<and> (msg_kwargs_type m = Some ''computer_call_output'' \<and> is_url pf u
            \<and> (http_get pf u = Rejected \<or> (http_get pf u = Response r \<and> aborted r)) \<longrightarrow>
          conditionallyUpdateToolMessageContent pf m = Inl NetworkError
          \<and> (m \<in> set messages
               \<and> (zdrEnabled cfg \<or> \<not> isComputerCallToolMessage (last messages)
                    \<or> last messages = m) \<longrightarrow>
               callModelCustom pf (Some key) base cfg messages = Some (Inl NetworkError)))
       \<and> (msg_kwargs_type m \<noteq> Some ''computer_call_output'' \<or> \<not> is_url pf u \<longrightarrow>
          conditionallyUpdateToolMessageContent pf m = Inr m
          \<and> (\<not> prefix ''data:image/'' u \<longrightarrow>
               convertMessageToGrokFormat sf m
                 = \<lparr>role = ''tool'', content = Text u, tool_calls = None,
                    tool_call_id = Some (msg_tool_call_id m)\<rparr>)
          \<and> (msg_kwargs_type m \<noteq> Some ''computer_call_output'' \<and> \<not> prefix ''data:image/'' u \<longrightarrow>
               callModelCustom pf (Some key) base cfg [m]
                 = map_option Inr
                     (completion_of
                        (http_post pf
                           ((case base of None \<Rightarrow> ''https://api.x.ai/v1'' | Some b \<Rightarrow> b)
                            @ ''/chat/completions'')
                           key
                           (client_body
                              (prompt_messages pf (cfg_prompt cfg)
                               @ [\<lparr>role = ''tool'', content = Text u, tool_calls = None,
                                    tool_call_id = Some (msg_tool_call_id m)\<rparr>])
                              [createComputerUseTool (environment cfg)] False)))))"
proof -
  have types: "msg_type m \<noteq> ''system''" "msg_type m \<noteq> ''human''" "msg_type m \<noteq> ''ai''"
    using assms by simp_all
  have resolved: "conditionallyUpdateToolMessageContent pf m
      = Inr (m\<lparr>msg_content := Text (''data:image/png;base64,'' @ base64 pf (body_text r))\<rparr>)"
    if "msg_kwargs_type m = Some ''computer_call_output''" "is_url pf u"
       "http_get pf u = Response r" "\<not> aborted r"
    using that assms
    by (simp add: conditionallyUpdateToolMessageContent_def imageUrlToBase64_def)
  have image: "convertMessageToGrokFormat sf'
       (m\<lparr>msg_content := Text (''data:image/png;base64,'' @ base64 pf (body_text r))\<rparr>)
     = plain_wire ''user''
         (Parts [image_url_part (''data:image/png;base64,'' @ base64 pf (body_text r))])" for sf'
    using assms types by (simp add: convertMessageToGrokFormat_def)
  have sent_image: "callModelCustom pf (Some key) base cfg messages
      = map_option Inr
          (completion_of
             (http_post pf
                ((case base of None \<Rightarrow> ''https://api.x.ai/v1'' | Some b \<Rightarrow> b)
                 @ ''/chat/completions'')
                key
                (client_body
                   [plain_wire ''user''
                      (Parts [image_url_part
                         (''data:image/png;base64,'' @ base64 pf (body_text r))])]
                   [createComputerUseTool (environment cfg)] False)))"
    if "msg_kwargs_type m = Some ''computer_call_output''" "is_url pf u"
       "http_get pf u = Response r" "\<not> aborted r"
       "messages \<noteq> []" "last messages = m" "\<not> zdrEnabled cfg"
  proof -
    have "callModelCustom_messages pf cfg messages
        = Inr [plain_wire ''user''
                 (Parts [image_url_part (''data:image/png;base64,'' @ base64 pf (body_text r))])]"
      using that resolved [OF that(1-4)] image assms(1)
      by (simp add: callModelCustom_messages_def Let_def isComputerCallToolMessage_def)
    then show ?thesis
      by (simp add: callModelCustom_posts [OF assms(3)])
  qed
  have failed: "conditionallyUpdateToolMessageContent pf m = Inl NetworkError"
    if "msg_kwargs_type m = Some ''computer_call_output''" "is_url pf u"
       "http_get pf u = Rejected \<or> (http_get pf u = Response r \<and> aborted r)"
    using that assms
    by (auto simp: conditionallyUpdateToolMessageContent_def imageUrlToBase64_def)
  have raised: "callModelCustom pf (Some key) base cfg messages = Some (Inl NetworkError)"
    if fail: "conditionallyUpdateToolMessageContent pf m = Inl NetworkError"
      and tagged: "msg_kwargs_type m = Some ''computer_call_output''"
      and mem: "m \<in> set messages"
      and sel: "zdrEnabled cfg \<or> \<not> isComputerCallToolMessage (last messages) \<or> last messages = m"
  proof -
    have nonempty: "messages \<noteq> []"
      using mem by auto
    have "callModelCustom_messages pf cfg messages = Inl NetworkError"
    proof (cases "isComputerCallToolMessage (last messages) \<and> \<not> zdrEnabled cfg")
      case True
      with sel have "last messages = m" by blast
      with True fail nonempty show ?thesis
        by (simp add: callModelCustom_messages_def Let_def)
    next
      case False
      from fail mem obtain e' where "update_all pf messages = Inl e'"
        using update_all_error by blast
      moreover from this have "e' = NetworkError"
        by (rule update_all_NetworkError)
      ultimately show ?thesis
        using False nonempty by (auto simp: callModelCustom_messages_def Let_def)
    qed
    then show ?thesis
      by (simp add: callModelCustom_posts [OF assms(3)])
  qed
  have unchanged: "conditionallyUpdateToolMessageContent pf m = Inr m"
    if "msg_kwargs_type m \<noteq> Some ''computer_call_output'' \<or> \<not> is_url pf u"
    using that assms by (auto simp: conditionallyUpdateToolMessageContent_def)
  have forwarded: "convertMessageToGrokFormat sf' m
      = \<lparr>role = ''tool'', content = Text u, tool_calls = None,
         tool_call_id = Some (msg_tool_call_id m)\<rparr>"
    if "\<not> prefix ''data:image/'' u" for sf'
    using that assms types by (simp add: convertMessageToGrokFormat_def)
  have sent_url: "callModelCustom pf (Some key) base cfg [m]
      = map_option Inr
          (completion_of
             (http_post pf
                ((case base of None \<Rightarrow> ''https://api.x.ai/v1'' | Some b \<Rightarrow> b)
                 @ ''/chat/completions'')
                key
                (client_body
                   (prompt_messages pf (cfg_prompt cfg)
                    @ [\<lparr>role = ''tool'', content = Text u, tool_calls = None,
                         tool_call_id = Some (msg_tool_call_id m)\<rparr>])
                   [createComputerUseTool (environment cfg)] False)))"
    if "msg_kwargs_type m \<noteq> Some ''computer_call_output''" "\<not> prefix ''data:image/'' u"
  proof -
    have "callModelCustom_messages pf cfg [m]
        = Inr (prompt_messages pf (cfg_prompt cfg)
               @ [\<lparr>role = ''tool'', content = Text u, tool_calls = None,
                    tool_call_id = Some (msg_tool_call_id m)\<rparr>])"
      using that unchanged forwarded
      by (simp add: callModelCustom_messages_def Let_def isComputerCallToolMessage_def)
    then show ?thesis
      by (simp add: callModelCustom_posts [OF assms(3)])
  qed
  show ?thesis
    using resolved image sent_image failed raised unchanged forwarded sent_url by blast
qed

theorem tool_image_resolution_witness:
  "conditionallyUpdateToolMessageContent (echo_platform (ok_response [''PNG'']))
       (screenshot_result ''https://example.com/shot.png'')
     = Inr (screenshot_result ''data:image/png;base64,iVBORw=='')
   \<and> map_option (map_sum id ai_content)
       (callModelCustom (echo_platform (ok_response [''PNG''])) (Some ''xai-key'') None
          \<lparr>zdrEnabled = False, cfg_prompt = None, environment = ''web''\<rparr>
          [screenshot_result ''https://example.com/shot.png''])
     = Some (Inr ''user '')
   \<and> callModelCustom (echo_platform Rejected) (Some ''xai-key'') None
       \<lparr>zdrEnabled = False, cfg_prompt = None, environment = ''web''\<rparr>
       [screenshot_result ''https://example.com/shot.png'']
     = Some (Inl NetworkError)
   \<and> callModelCustom (echo_platform Rejected) (Some ''xai-key'') None
       \<lparr>zdrEnabled = True, cfg_prompt = None, environment = ''web''\<rparr>
       [screenshot_result ''https://example.com/shot.png'', human ''go on'']
     = Some (Inl NetworkError)
   \<and> map_option (map_sum id ai_content)
       (callModelCustom (echo_platform Rejected) (Some ''xai-key'') None
          \<lparr>zdrEnabled = False, cfg_prompt = None, environment = ''web''\<rparr>
          [tool_result ''https://example.com/shot.png''])
     = Some (Inr ''tool '')"
proof -
  let ?url = "''https://example.com/shot.png''"
  let ?r = "\<lparr>ok = True, status = 200, statusText = ''OK'', body = Some [''PNG''], aborted = False\<rparr>"
  let ?off = "\<lparr>zdrEnabled = False, cfg_prompt = None, environment = ''web''\<rparr>"
  let ?on = "\<lparr>zdrEnabled = True, cfg_prompt = None, environment = ''web''\<rparr>"
  have key: "''xai-key'' \<noteq> []"
    by simp
  note fetched =
    tool_image_resolution [of "screenshot_result ?url" ?url "''xai-key''"
      "echo_platform (ok_response [''PNG''])" ?r "\<lambda>j. ''{}''" "[screenshot_result ?url]" ?off None,
      OF _ _ key]
  note failed =
    tool_image_resolution [of "screenshot_result ?url" ?url "''xai-key''"
      "echo_platform Rejected" ?r "\<lambda>j. ''{}''" "[screenshot_result ?url]" ?off None,
      OF _ _ key]
  note failed_history =
    tool_image_resolution [of "screenshot_result ?url" ?url "''xai-key''"
      "echo_platform Rejected" ?r "\<lambda>j. ''{}''" "[screenshot_result ?url, human ''go on'']" ?on None,
      OF _ _ key]
  note untagged =
    tool_image_resolution [of "tool_result ?url" ?url "''xai-key''"
      "echo_platform Rejected" ?r "\<lambda>j. ''{}''" "[]" ?off None,
      OF _ _ key]
  have 1: "conditionallyUpdateToolMessageContent (echo_platform (ok_response [''PNG'']))
       (screenshot_result ?url) = Inr (screenshot_result ''data:image/png;base64,iVBORw=='')"
    using fetched
    by (simp add: screenshot_result_def tool_result_def echo_platform_def stub_platform_def
          ok_response_def body_text_def)
  have \<open>callModelCustom (echo_platform (ok_response [''PNG''])) (Some ''xai-key'') None ?off
          [screenshot_result ?url]
        = map_option Inr (completion_of
            (ok_response [''{"choices":[{"message":{"content":"user "}}]}'']))\<close>
    using fetched
    by (simp add: screenshot_result_def tool_result_def echo_platform_def stub_platform_def
          ok_response_def body_text_def client_body_def plain_wire_def)
  then have 2: "map_option (map_sum id ai_content)
       (callModelCustom (echo_platform (ok_response [''PNG''])) (Some ''xai-key'') None ?off
          [screenshot_result ?url]) = Some (Inr ''user '')"
    using echo_user by (simp add: option.map_comp comp_def)
  have 3: "callModelCustom (echo_platform Rejected) (Some ''xai-key'') None ?off
       [screenshot_result ?url] = Some (Inl NetworkError)"
    using failed
    by (simp add: screenshot_result_def tool_result_def echo_platform_def stub_platform_def)
  have 4: "callModelCustom (echo_platform Rejected) (Some ''xai-key'') None ?on
       [screenshot_result ?url, human ''go on''] = Some (Inl NetworkError)"
    using failed_history
    by (simp add: screenshot_result_def tool_result_def echo_platform_def stub_platform_def)
  have \<open>callModelCustom (echo_platform Rejected) (Some ''xai-key'') None ?off [tool_result ?url]
        = map_option Inr (completion_of
            (ok_response [''{"choices":[{"message":{"content":"tool "}}]}'']))\<close>
    using untagged
    by (simp add: tool_result_def echo_platform_def stub_platform_def client_body_def)
  then have 5: "map_option (map_sum id ai_content)
       (callModelCustom (echo_platform Rejected) (Some ''xai-key'') None ?off [tool_result ?url])
     = Some (Inr ''tool '')"
    using echo_tool by (simp add: option.map_comp comp_def)
  from 1 2 3 4 5 show ?thesis
    by blast
qed

text \<open>
  C7 as stated fails: with \<^verbatim>\<open>zdrEnabled\<close> false and a last message that is a tool result
  without the tag \<^verbatim>\<open>computer_call_output\<close>, \<^verbatim>\<open>callModelCustom\<close> sends the prompt and
  the whole history, not the last message alone.
\<close>

theorem untagged_tool_result_counterexample:
  "callModelCustom_messages (stub_platform Rejected Rejected)
       \<lparr>zdrEnabled = False, cfg_prompt = Some (PromptText ''You control a browser''),
        environment = ''web''\<rparr>
       [human ''open example.com'', tool_result ''done'']
     = Inr [plain_wire ''system'' (Text ''You control a browser''),
            plain_wire ''user'' (Text ''open example.com''),
            \<lparr>role = ''tool'', content = Text ''done'', tool_calls = None,
             tool_call_id = Some ''call_1''\<rparr>]
   \<and> map_option (map_sum id ai_content)
       (callModelCustom (echo_platform Rejected) (Some ''xai-key'') None
          \<lparr>zdrEnabled = False, cfg_prompt = Some (PromptText ''You control a browser''),
           environment = ''web''\<rparr>
          [human ''open example.com'', tool_result ''done''])
     = Some (Inr ''system user tool '')"
proof -
  have sent: "callModelCustom_messages pf
       \<lparr>zdrEnabled = False, cfg_prompt = Some (PromptText ''You control a browser''),
        environment = ''web''\<rparr>
       [human ''open example.com'', tool_result ''done'']
     = Inr [plain_wire ''system'' (Text ''You control a browser''),
            plain_wire ''user'' (Text ''open example.com''),
            \<lparr>role = ''tool'', content = Text ''done'', tool_calls = None,
             tool_call_id = Some ''call_1''\<rparr>]" for pf
    by (simp add: callModelCustom_messages_def tool_result_def human_def
          isComputerCallToolMessage_def conditionallyUpdateToolMessageContent_def
          convertMessageToGrokFormat_def plain_wire_def)
  have "map_option (map_sum id ai_content)
       (callModelCustom (echo_platform Rejected) (Some ''xai-key'') None
          \<lparr>zdrEnabled = False, cfg_prompt = Some (PromptText ''You control a browser''),
           environment = ''web''\<rparr>
          [human ''open example.com'', tool_result ''done''])
     = Some (Inr ''system user tool '')"
    using echo_system_user_tool
    by (simp add: callModelCustom_posts sent echo_platform_def plain_wire_def client_body_def
          option.map_comp comp_def)
  with sent show ?thesis
    by simp
qed

text \<open>
  C7, amended. For every history that is not empty: when \<^verbatim>\<open>zdrEnabled\<close> is false and
  the last message is a tool result tagged \<^verbatim>\<open>computer_call_output\<close>, the request of
  \<^verbatim>\<open>callModelCustom\<close> holds the resolved last message alone; in every other case it holds
  every message of the history, resolved and in order, after the messages of the prompt
  (none for a missing or empty prompt, one otherwise). An error of the resolution is
  raised, and nothing is posted.
\<close>

theorem callModelCustom_selection:
  assumes "key \<noteq> []" and "messages \<noteq> []"
  shows "(isComputerCallToolMessage (last messages) \<and> \<not> zdrEnabled cfg \<longrightarrow>
            callModelCustom pf (Some key) base cfg messages
              = (case conditionallyUpdateToolMessageContent pf (last messages) of
                   Inl e \<Rightarrow> Some (Inl e)
                 | Inr formattedMessage \<Rightarrow>
                     map_option Inr
                       (completion_of
                          (http_post pf
                             ((case base of None \<Rightarrow> ''https://api.x.ai/v1'' | Some b \<Rightarrow> b)
                              @ ''/chat/completions'')
                             key
                             (client_body
                                [convertMessageToGrokFormat (stringify pf) formattedMessage]
                                [createComputerUseTool (environment cfg)] False)))))
       \<and> (\<not> (isComputerCallToolMessage (last messages) \<and> \<not> zdrEnabled cfg) \<longrightarrow>
            callModelCustom pf (Some key) base cfg messages
              = (case update_all pf messages of
                   Inl e \<Rightarrow> Some (Inl e)
                 | Inr formattedMessages \<Rightarrow>
                     map_option Inr
                       (completion_of
                          (http_post pf
                             ((case base of None \<Rightarrow> ''https://api.x.ai/v1'' | Some b \<Rightarrow> b)
                              @ ''/chat/completions'')
                             key
                             (client_body
                                (prompt_messages pf (cfg_prompt cfg)
                                 @ map (convertMessageToGrokFormat (stringify pf))
                                     formattedMessages)
                                [createComputerUseTool (environment cfg)] False)))))
       \<and> (\<forall>formatted. update_all pf messages = Inr formatted \<longrightarrow>
             length formatted = length messages
             \<and> (\<forall>i<length messages.
                   conditionallyUpdateToolMessageContent pf (messages ! i)
                     = Inr (formatted ! i)))
       \<and> isComputerCallToolMessage (last messages)
           = (msg_type (last messages) = ''tool''
              \<and> msg_kwargs_type (last messages) = Some ''computer_call_output'')
       \<and> prompt_messages pf (cfg_prompt cfg)
           = (case cfg_prompt cfg of
                None \<Rightarrow> []
              | Some (PromptText s) \<Rightarrow> if s = [] then [] else [plain_wire ''system'' (Text s)]
              | Some (PromptMessage m) \<Rightarrow> [convertMessageToGrokFormat (stringify pf) m])"
proof (intro conjI impI allI)
  assume "isComputerCallToolMessage (last messages) \<and> \<not> zdrEnabled cfg"
  then show "callModelCustom pf (Some key) base cfg messages
              = (case conditionallyUpdateToolMessageContent pf (last messages) of
                   Inl e \<Rightarrow> Some (Inl e)
                 | Inr formattedMessage \<Rightarrow>
                     map_option Inr
                       (completion_of
                          (http_post pf
                             ((case base of None \<Rightarrow> ''https://api.x.ai/v1'' | Some b \<Rightarrow> b)
                              @ ''/chat/completions'')
                             key
                             (client_body
                                [convertMessageToGrokFormat (stringify pf) formattedMessage]
                                [createComputerUseTool (environment cfg)] False))))"
    using assms(2)
    by (simp add: callModelCustom_posts [OF assms(1)] callModelCustom_messages_def Let_def
             split: sum.split)
next
  assume "\<not> (isComputerCallToolMessage (last messages) \<and> \<not> zdrEnabled cfg)"
  then show "callModelCustom pf (Some key) base cfg messages
              = (case update_all pf messages of
                   Inl e \<Rightarrow> Some (Inl e)
                 | Inr formattedMessages \<Rightarrow>
                     map_option Inr
                       (completion_of
                          (http_post pf
                             ((case base of None \<Rightarrow> ''https://api.x.ai/v1'' | Some b \<Rightarrow> b)
                              @ ''/chat/completions'')
                             key
                             (client_body
                                (prompt_messages pf (cfg_prompt cfg)
                                 @ map (convertMessageToGrokFormat (stringify pf))
                                     formattedMessages)
                                [createComputerUseTool (environment cfg)] False))))"
    using assms(2)
    by (auto simp: callModelCustom_posts [OF assms(1)] callModelCustom_messages_def Let_def
             split: sum.split)
next
  fix formatted
  assume upd: "update_all pf messages = Inr formatted"
  then show "length formatted = length messages"
    by (rule update_all_length)
  fix i
  assume "i < length messages"
  with upd show "conditionallyUpdateToolMessageContent pf (messages ! i) = Inr (formatted ! i)"
    by (rule update_all_nth)
next
  show "isComputerCallToolMessage (last messages)
           = (msg_type (last messages) = ''tool''
              \<and> msg_kwargs_type (last messages) = Some ''computer_call_output'')"
    by (simp add: isComputerCallToolMessage_def)
next
  show "prompt_messages pf (cfg_prompt cfg)
       = (case cfg_prompt cfg of
            None \<Rightarrow> []
          | Some (PromptText s) \<Rightarrow> if s = [] then [] else [plain_wire ''system'' (Text s)]
          | Some (PromptMessage m) \<Rightarrow> [convertMessageToGrokFormat (stringify pf) m])"
    by (auto split: option.split prompt.split)
qed

theorem callModelCustom_selection_witness:
  "map_option (map_sum id ai_content)
       (callModelCustom (echo_platform (ok_response [''PNG''])) (Some ''xai-key'') None
          \<lparr>zdrEnabled = False, cfg_prompt = Some (PromptText ''You control a browser''),
           environment = ''web''\<rparr>
          [human ''open example.com'', screenshot_result ''https://example.com/shot.png''])
     = Some (Inr ''user '')
   \<and> map_option (map_sum id ai_content)
       (callModelCustom (echo_platform (ok_response [''PNG''])) (Some ''xai-key'') None
          \<lparr>zdrEnabled = True, cfg_prompt = Some (PromptText ''You control a browser''),
           environment = ''web''\<rparr>
          [human ''open example.com'', screenshot_result ''https://example.com/shot.png''])
     = Some (Inr ''system user user '')
   \<and> callModelCustom (echo_platform Rejected) (Some ''xai-key'') None
       \<lparr>zdrEnabled = False, cfg_prompt = Some (PromptText ''You control a browser''),
        environment = ''web''\<rparr>
       [human ''open example.com'', screenshot_result ''https://example.com/shot.png'']
     = Some (Inl NetworkError)"
proof -
  let ?ms = "[human ''open example.com'', screenshot_result ''https://example.com/shot.png'']"
  let ?off = "\<lparr>zdrEnabled = False, cfg_prompt = Some (PromptText ''You control a browser''),
               environment = ''web''\<rparr>"
  let ?on = "\<lparr>zdrEnabled = True, cfg_prompt = Some (PromptText ''You control a browser''),
              environment = ''web''\<rparr>"
  have key: "''xai-key'' \<noteq> []"
    by simp
  have ms: "?ms \<noteq> []"
    by simp
  note last_only =
    callModelCustom_selection [OF key ms, of ?off "echo_platform (ok_response [''PNG''])" None]
  note history =
    callModelCustom_selection [OF key ms, of ?on "echo_platform (ok_response [''PNG''])" None]
  note failed =
    callModelCustom_selection [OF key ms, of ?off "echo_platform Rejected" None]
  have \<open>callModelCustom (echo_platform (ok_response [''PNG''])) (Some ''xai-key'') None ?off ?ms
        = map_option Inr (completion_of
            (ok_response [''{"choices":[{"message":{"content":"user "}}]}'']))\<close>
    using last_only
    by (simp add: screenshot_result_def tool_result_def human_def echo_platform_def
          stub_platform_def ok_response_def body_text_def client_body_def plain_wire_def
          isComputerCallToolMessage_def conditionallyUpdateToolMessageContent_def
          imageUrlToBase64_def convertMessageToGrokFormat_def)
  then have 1: "map_option (map_sum id ai_content)
       (callModelCustom (echo_platform (ok_response [''PNG''])) (Some ''xai-key'') None ?off ?ms)
     = Some (Inr ''user '')"
    using echo_user by (simp add: option.map_comp comp_def)
  have \<open>callModelCustom (echo_platform (ok_response [''PNG''])) (Some ''xai-key'') None ?on ?ms
        = map_option Inr (completion_of
            (ok_response [''{"choices":[{"message":{"content":"system user user "}}]}'']))\<close>
    using history
    by (simp add: screenshot_result_def tool_result_def human_def echo_platform_def
          stub_platform_def ok_response_def body_text_def client_body_def plain_wire_def
          isComputerCallToolMessage_def conditionallyUpdateToolMessageContent_def
          imageUrlToBase64_def convertMessageToGrokFormat_def)
  then have 2: "map_option (map_sum id ai_content)
       (callModelCustom (echo_platform (ok_response [''PNG''])) (Some ''xai-key'') None ?on ?ms)
     = Some (Inr ''system user user '')"
    using echo_system_user_user by (simp add: option.map_comp comp_def)
  have 3: "callModelCustom (echo_platform Rejected) (Some ''xai-key'') None ?off ?ms
        = Some (Inl NetworkError)"
    using failed
    by (simp add: screenshot_result_def tool_result_def human_def echo_platform_def
          stub_platform_def isComputerCallToolMessage_def
          conditionallyUpdateToolMessageContent_def imageUrlToBase64_def)
  from 1 2 3 show ?thesis
    by blast
qed

section \<open>Properties of the non-streaming call\<close>

lemma isl_fromWire: "isl (fromWire b c) = isl (fromWire True c)"
  by (auto simp: fromWire_def split: option.splits list.splits sum.splits)

lemma call_fails_client:
  assumes "call_fails outcome"
    and "http_post pf (baseURL @ ''/chat/completions'') apiKey (client_body messages tools False)
           = outcome"
  shows "createChatCompletion pf apiKey baseURL messages tools = Some client_fallback"
proof (cases outcome)
  case Rejected
  with assms(2) show ?thesis
    by (simp add: createChatCompletion_def createChatCompletion_try_def makeRequest_def)
next
  case (Response r)
  show ?thesis
  proof (cases "\<not> ok r \<or> aborted r")
    case True
    with Response assms(2) show ?thesis
      by (auto simp: createChatCompletion_def createChatCompletion_try_def makeRequest_def)
  next
    case False
    show ?thesis
    proof (cases "JSON_parse (body_text r)")
      case None
      with False Response assms(2) show ?thesis
        by (simp add: createChatCompletion_def createChatCompletion_try_def makeRequest_def)
    next
      case (Some data)
      with False Response assms(1) obtain c
        where c: "decode_completion data = Some c" and "isl (fromWire True c)"
        by (auto simp: call_fails_def split: option.splits)
      then have "isl (fromWire False c)"
        using isl_fromWire by blast
      then obtain e where "fromWire False c = Inl e"
        by (cases "fromWire False c") simp_all
      with c Some False Response assms(2) show ?thesis
        by (simp add: createChatCompletion_def createChatCompletion_try_def makeRequest_def)
    qed
  qed
qed

lemma call_fails_generate_try:
  assumes "call_fails outcome"
    and "http_post pf (xaiBaseUrl @ ''/chat/completions'') xaiApiKey
           (generate_body xaiMessages grokTools options False) = outcome"
  shows "\<exists>e. generate_try pf xaiApiKey xaiBaseUrl xaiMessages grokTools options = Some (Inl e)"
proof (cases outcome)
  case Rejected
  with assms(2) show ?thesis
    by (simp add: generate_try_def)
next
  case (Response r)
  show ?thesis
  proof (cases "\<not> ok r \<or> aborted r")
    case True
    with Response assms(2) show ?thesis
      by (auto simp: generate_try_def)
  next
    case False
    show ?thesis
    proof (cases "JSON_parse (body_text r)")
      case None
      with False Response assms(2) show ?thesis
        by (simp add: generate_try_def)
    next
      case (Some data)
      with False Response assms(1) obtain c
        where c: "decode_completion data = Some c" and "isl (fromWire True c)"
        by (auto simp: call_fails_def split: option.splits)
      then obtain e where "fromWire True c = Inl e"
        by (cases "fromWire True c") simp_all
      with c Some False Response assms(2) show ?thesis
        by (simp add: generate_try_def)
    qed
  qed
qed

lemma call_fails_generate:
  assumes "call_fails outcome"
    and "http_post pf (xaiBaseUrl @ ''/chat/completions'') xaiApiKey
           (generate_body (map generate_convert messages)
              (if length (opt_tools options) > 0 then [grok_tool] else []) (gen options) False)
         = outcome"
    and "xaiApiKey \<noteq> []" and "xaiApiKey \<noteq> ''xai-demo-key-placeholder''"
    and "\<not> (opt_stream options \<noteq> Some False \<and> onLLMNewToken)"
  shows "generate pf xaiApiKey xaiBaseUrl messages options onLLMNewToken
           = Some (Inr generate_fallback)"
proof -
  from call_fails_generate_try [OF assms(1,2)] obtain e
    where "generate_try pf xaiApiKey xaiBaseUrl (map generate_convert messages)
             (if length (opt_tools options) > 0 then [grok_tool] else []) (gen options)
           = Some (Inl e)"
    by blast
  with assms(3,4,5) show ?thesis
    by (auto simp: generate_def Let_def)
qed

text \<open>
  C5. For every failure of the non-streaming call (a rejected \<^verbatim>\<open>fetch\<close>, a status that
  is not a success, a body that cannot be read, is not JSON or does not decode), both
  \<^verbatim>\<open>GrokClient.createChatCompletion\<close> and the non-streaming path of
  \<^verbatim>\<open>GrokChatModel._generate\<close> return their fixed fallback message, whose only tool
  invocation asks for a screenshot; nothing is raised.
\<close>

theorem nonstreaming_failure_fallback:
  assumes "call_fails outcome"
  shows "(http_post pf (baseURL @ ''/chat/completions'') apiKey (client_body wire tools False)
            = outcome \<longrightarrow>
          createChatCompletion pf apiKey baseURL wire tools = Some client_fallback)
       \<and> (http_post pf (baseURL @ ''/chat/completions'') apiKey
             (generate_body (map generate_convert messages)
                (if length (opt_tools options) > 0 then [grok_tool] else []) (gen options) False)
            = outcome
          \<and> apiKey \<noteq> [] \<and> apiKey \<noteq> ''xai-demo-key-placeholder''
          \<and> \<not> (opt_stream options \<noteq> Some False \<and> onLLMNewToken) \<longrightarrow>
          generate pf apiKey baseURL messages options onLLMNewToken
            = Some (Inr generate_fallback))
       \<and> map (\<lambda>tc. (tc_name tc, tc_args tc)) (ai_tool_calls client_fallback)
           = [(''computer_use'', screenshot_args)]
       \<and> map (\<lambda>tc. (tc_name tc, tc_args tc)) (ai_tool_calls (cr_message generate_fallback))
           = [(''computer_use_preview'', screenshot_args)]"
  using call_fails_client [OF assms] call_fails_generate [OF assms]
  by (simp add: client_fallback_def generate_fallback_def)

theorem nonstreaming_failure_fallback_witness:
  "call_fails server_error
   \<and> createChatCompletion (stub_platform Rejected server_error) ''xai-key'' ''https://api.x.ai/v1''
       [plain_wire ''user'' (Text ''open example.com'')] [createComputerUseTool ''web'']
     = Some client_fallback
   \<and> generate (stub_platform Rejected server_error) ''xai-key'' ''https://api.x.ai/v1''
       [human ''open example.com'']
       \<lparr>gen = \<lparr>opt_temperature = None, opt_max_tokens = None\<rparr>, opt_stream = Some False,
        opt_tools = []\<rparr> False
     = Some (Inr generate_fallback)"
proof -
  have fails: "call_fails server_error"
    by (simp add: call_fails_def server_error_def)
  show ?thesis
    using fails
      nonstreaming_failure_fallback [OF fails,
        of "stub_platform Rejected server_error" "''https://api.x.ai/v1''" "''xai-key''"
           "[plain_wire ''user'' (Text ''open example.com'')]" "[createComputerUseTool ''web'']"
           "[human ''open example.com'']"
           "\<lparr>gen = \<lparr>opt_temperature = None, opt_max_tokens = None\<rparr>, opt_stream = Some False,
             opt_tools = []\<rparr>" False]
    by (simp add: stub_platform_def)
qed

lemma bad_arguments_body_parse:
  "map_option decode_completion (JSON_parse bad_arguments_body)
     = Some (Some \<lparr>cp_id = Some ''r1'', cp_model = None, cp_usage = None,
          cp_choices = Some [\<lparr>cc_message = Some \<lparr>cm_content = Some ''ok'',
             cm_tool_calls = Some [\<lparr>ctc_id = ''call_1'',
                ctc_function = Some \<lparr>cf_name = ''computer_use'', cf_arguments = Some ''{bad''\<rparr>\<rparr>]\<rparr>,
             cc_finish_reason = None\<rparr>]\<rparr>)"
  by code_simp

lemma JSON_parse_empty_object: "JSON_parse ''{}'' = Some (JObj [])"
  by code_simp

lemma JSON_parse_bad: "JSON_parse ''{bad'' = None"
  by code_simp

lemma tool_calls_of_error:
  "tc \<in> set tcs \<Longrightarrow> isl (tool_call_of tc) \<Longrightarrow> isl (tool_calls_of tcs)"
  by (induction tcs) (auto split: sum.splits)

lemma fromWire_bad_arguments:
  assumes "cp_choices c = Some (choice # rest)" and "cc_message choice = Some message"
    and "cm_tool_calls message = Some tcs" and "tc \<in> set tcs"
    and "ctc_function tc = Some f" and "cf_arguments f = Some a" and "a \<noteq> []"
    and "JSON_parse a = None"
  shows "isl (fromWire b c)"
proof -
  have "isl (tool_call_of tc)"
    using assms(5-8) by (simp add: tool_call_of_def arguments_or_default_def)
  with assms(4) have "isl (tool_calls_of tcs)"
    by (rule tool_calls_of_error)
  then obtain e where "tool_calls_of tcs = Inl e"
    by (cases "tool_calls_of tcs") simp_all
  with assms(1-3) show ?thesis
    by (simp add: fromWire_def)
qed

text \<open>
  C3 as stated fails: arguments that do not parse raise inside the \<^verbatim>\<open>try\<close> block, and
  the call returns the fallback message; the invocation of the response is not returned
  with empty arguments.
\<close>

theorem bad_arguments_counterexample:
  "createChatCompletion (stub_platform Rejected (ok_response [bad_arguments_body]))
       ''xai-key'' ''https://api.x.ai/v1'' [] []
     = Some client_fallback
   \<and> map_option ai_tool_calls
       (createChatCompletion (stub_platform Rejected (ok_response [bad_arguments_body]))
          ''xai-key'' ''https://api.x.ai/v1'' [] [])
     \<noteq> Some [\<lparr>tc_id = ''call_1'', tc_name = ''computer_use'', tc_args = JObj [],
               tc_argsString = None\<rparr>]"
proof -
  obtain data where data: "JSON_parse bad_arguments_body = Some data"
    and c: "decode_completion data
      = Some \<lparr>cp_id = Some ''r1'', cp_model = None, cp_usage = None,
          cp_choices = Some [\<lparr>cc_message = Some \<lparr>cm_content = Some ''ok'',
             cm_tool_calls = Some [\<lparr>ctc_id = ''call_1'',
                ctc_function = Some \<lparr>cf_name = ''computer_use'', cf_arguments = Some ''{bad''\<rparr>\<rparr>]\<rparr>,
             cc_finish_reason = None\<rparr>]\<rparr>"
    using bad_arguments_body_parse by (cases "JSON_parse bad_arguments_body") auto
  have raised: "fromWire False \<lparr>cp_id = Some ''r1'', cp_model = None, cp_usage = None,
          cp_choices = Some [\<lparr>cc_message = Some \<lparr>cm_content = Some ''ok'',
             cm_tool_calls = Some [\<lparr>ctc_id = ''call_1'',
                ctc_function = Some \<lparr>cf_name = ''computer_use'', cf_arguments = Some ''{bad''\<rparr>\<rparr>]\<rparr>,
             cc_finish_reason = None\<rparr>]\<rparr> = Inl SyntaxError"
    by (simp add: fromWire_def tool_call_of_def arguments_or_default_def JSON_parse_bad)
  have "createChatCompletion (stub_platform Rejected (ok_response [bad_arguments_body]))
       ''xai-key'' ''https://api.x.ai/v1'' [] [] = Some client_fallback"
    using data c raised
    by (simp add: createChatCompletion_def createChatCompletion_try_def makeRequest_def
          stub_platform_def ok_response_def body_text_def)
  then show ?thesis
    by (simp add: client_fallback_def)
qed

text \<open>
  C3, amended. For every non-streaming response in which the arguments of a tool call are
  a non-empty string that does not parse as JSON, the decoding raises inside the \<^verbatim>\<open>try\<close>
  block and the call returns its fallback message: nothing is raised to the caller, and
  the invocations of the response are dropped. The empty object is the arguments of an
  invocation whose argument string is missing or empty.
\<close>

theorem unparsable_arguments_fallback:
  assumes "map_option decode_completion (JSON_parse (body_text r)) = Some (Some c)"
    and "cp_choices c = Some (choice # rest)" and "cc_message choice = Some message"
    and "cm_tool_calls message = Some tcs" and "tc \<in> set tcs"
    and "ctc_function tc = Some f" and "cf_arguments f = Some a" and "a \<noteq> []"
    and "JSON_parse a = None"
  shows "(http_post pf (baseURL @ ''/chat/completions'') apiKey (client_body wire tools False)
            = Response r \<longrightarrow>
          createChatCompletion pf apiKey baseURL wire tools = Some client_fallback)
       \<and> (http_post pf (baseURL @ ''/chat/completions'') apiKey
             (generate_body (map generate_convert messages)
                (if length (opt_tools options) > 0 then [grok_tool] else []) (gen options) False)
            = Response r
          \<and> apiKey \<noteq> [] \<and> apiKey \<noteq> ''xai-demo-key-placeholder''
          \<and> \<not> (opt_stream options \<noteq> Some False \<and> onLLMNewToken) \<longrightarrow>
          generate pf apiKey baseURL messages options onLLMNewToken
            = Some (Inr generate_fallback))
       \<and> tool_call_of \<lparr>ctc_id = i, ctc_function = Some \<lparr>cf_name = n, cf_arguments = None\<rparr>\<rparr>
           = Inr \<lparr>tc_id = i, tc_name = n, tc_args = JObj [], tc_argsString = None\<rparr>
       \<and> tool_call_of \<lparr>ctc_id = i, ctc_function = Some \<lparr>cf_name = n, cf_arguments = Some []\<rparr>\<rparr>
           = Inr \<lparr>tc_id = i, tc_name = n, tc_args = JObj [], tc_argsString = None\<rparr>"
proof -
  have raised: "isl (fromWire True c)"
    using assms(2-9) by (rule fromWire_bad_arguments)
  obtain data where "JSON_parse (body_text r) = Some data" "decode_completion data = Some c"
    using assms(1) by (cases "JSON_parse (body_text r)") auto
  with raised have fails: "call_fails (Response r)"
    by (simp add: call_fails_def)
  show ?thesis
    using call_fails_client [OF fails] call_fails_generate [OF fails]
    by (simp add: tool_call_of_def arguments_or_default_def JSON_parse_empty_object)
qed

theorem unparsable_arguments_fallback_witness:
  "generate (stub_platform Rejected (ok_response [bad_arguments_body])) ''xai-key''
       ''https://api.x.ai/v1'' [human ''open example.com'']
       \<lparr>gen = \<lparr>opt_temperature = None, opt_max_tokens = None\<rparr>, opt_stream = Some False,
        opt_tools = []\<rparr> False
     = Some (Inr generate_fallback)
   \<and> JSON_parse ''{bad'' = None"
proof -
  have body: "map_option decode_completion
        (JSON_parse (body_text \<lparr>ok = True, status = 200, statusText = ''OK'',
                                body = Some [bad_arguments_body], aborted = False\<rparr>))
      = Some (Some \<lparr>cp_id = Some ''r1'', cp_model = None, cp_usage = None,
          cp_choices = Some [\<lparr>cc_message = Some \<lparr>cm_content = Some ''ok'',
             cm_tool_calls = Some [\<lparr>ctc_id = ''call_1'',
                ctc_function = Some \<lparr>cf_name = ''computer_use'', cf_arguments = Some ''{bad''\<rparr>\<rparr>]\<rparr>,
             cc_finish_reason = None\<rparr>]\<rparr>)"
    using bad_arguments_body_parse by (simp add: body_text_def)
  show ?thesis
    using JSON_parse_bad
      unparsable_arguments_fallback [OF body _ _ _ _ _ _ _ JSON_parse_bad,
        of "\<lparr>cc_message = Some \<lparr>cm_content = Some ''ok'',
             cm_tool_calls = Some [\<lparr>ctc_id = ''call_1'',
                ctc_function = Some \<lparr>cf_name = ''computer_use'', cf_arguments = Some ''{bad''\<rparr>\<rparr>]\<rparr>,
             cc_finish_reason = None\<rparr>" "[]"
           "\<lparr>cm_content = Some ''ok'',
             cm_tool_calls = Some [\<lparr>ctc_id = ''call_1'',
                ctc_function = Some \<lparr>cf_name = ''computer_use'', cf_arguments = Some ''{bad''\<rparr>\<rparr>]\<rparr>"
           "[\<lparr>ctc_id = ''call_1'',
                ctc_function = Some \<lparr>cf_name = ''computer_use'', cf_arguments = Some ''{bad''\<rparr>\<rparr>]"
           "\<lparr>ctc_id = ''call_1'',
                ctc_function = Some \<lparr>cf_name = ''computer_use'', cf_arguments = Some ''{bad''\<rparr>\<rparr>"
           "\<lparr>cf_name = ''computer_use'', cf_arguments = Some ''{bad''\<rparr>"
           "stub_platform Rejected (ok_response [bad_arguments_body])"
           "''https://api.x.ai/v1''" "''xai-key''" "[]" "[]" "[human ''open example.com'']"
           "\<lparr>gen = \<lparr>opt_temperature = None, opt_max_tokens = None\<rparr>, opt_stream = Some False,
             opt_tools = []\<rparr>" False]
    by (simp add: stub_platform_def ok_response_def)
qed

section \<open>Properties of the streaming assembler\<close>

subsection \<open>Malformed lines\<close>


lemma split_lines_not_Nil [simp]: "split_lines s \<noteq> []"
  by (induction s) (auto split: list.splits)












lemma warn_fields [simp]:
  "accumulatedContent (warn d st) = accumulatedContent st"
  "accumulatedToolCalls (warn d st) = accumulatedToolCalls st"
  "responseMetadata (warn d st) = responseMetadata st"
  "warnings (warn d st) = warnings st @ [d]"
  by (simp_all add: warn_def)

lemma warn_more [simp]:
  "newTokens (warn d gst) = newTokens gst" "yielded (warn d cst) = yielded cst"
  by (simp_all add: warn_def)






subsection \<open>The final message\<close>

text \<open>
  \<^verbatim>\<open>_streamGenerate\<close> keeps only the invocations with an identifier and a name.
\<close>

lemma final_message_filtered:
  "tc \<in> set (ai_tool_calls (final_message st)) \<Longrightarrow> tc_id tc \<noteq> [] \<and> tc_name tc \<noteq> []"
  by (simp add: final_message_def)

lemma assemble_filtered:
  "assemble chunks = Some m \<Longrightarrow> tc \<in> set (ai_tool_calls m)
     \<Longrightarrow> tc_id tc \<noteq> [] \<and> tc_name tc \<noteq> []"
  by (auto simp: assemble_def dest: final_message_filtered)

lemma streamGenerate_filtered:
  "streamGenerate pf key url ms ts opts = Some (Inr result)
     \<Longrightarrow> tc \<in> set (ai_tool_calls (cr_message result))
     \<Longrightarrow> tc_id tc \<noteq> [] \<and> tc_name tc \<noteq> []"
  by (auto simp: streamGenerate_def final_result_def
           split: fetch_outcome.splits if_splits option.splits
           dest: final_message_filtered)

text \<open>
  C2 fails on \<^verbatim>\<open>GrokStreamingClient.streamChatCompletion\<close>: after a fragment that
  carries an index only, the final message (after the sentinel, and after the end of the
  stream) holds the invocation with the empty identifier and the empty name; the final
  message of \<^verbatim>\<open>_streamGenerate\<close> for the same stream holds none.
\<close>

theorem client_final_message_unfiltered:
  "map_option (ai_tool_calls \<circ> last) (client_assemble [partial_chunk, done_chunk])
     = Some [empty_tool_call]
   \<and> map_option (ai_tool_calls \<circ> last) (client_assemble [partial_chunk])
     = Some [empty_tool_call]
   \<and> map_option ai_tool_calls (assemble [partial_chunk, done_chunk]) = Some []"
  by code_simp

subsection \<open>Argument text in fragments\<close>

text \<open>
  What the buffer of \<^verbatim>\<open>_streamGenerate\<close> does achieve: when no fragment parses on its
  own, the buffer holds the whole text, and the arguments are its value.
\<close>

lemma add_arguments_buffer:
  assumes "JSON_parse a = None"
  shows "tc_argsString (add_arguments t a)
           = Some ((case tc_argsString t of None \<Rightarrow> [] | Some b \<Rightarrow> b) @ a)"
    and "JSON_parse ((case tc_argsString t of None \<Rightarrow> [] | Some b \<Rightarrow> b) @ a) = Some v
           \<Longrightarrow> tc_args (add_arguments t a) = v"
  using assms by (simp_all add: add_arguments_def Let_def split: option.splits)

lemma fold_add_arguments_buffer:
  assumes "\<forall>a \<in> set fragments. JSON_parse a = None" and "tc_argsString t = None"
  shows "tc_argsString (fold (\<lambda>a t. add_arguments t a) fragments t)
           = (if fragments = [] then None else Some (concat fragments))"
  using assms(1)
proof (induction fragments rule: rev_induct)
  case Nil
  then show ?case by (simp add: assms(2))
next
  case (snoc a fragments)
  then show ?case
    by (simp add: add_arguments_buffer(1))
qed

lemma split_arguments_accumulate:
  assumes "\<forall>a \<in> set fragments. JSON_parse a = None" and "fragments \<noteq> []"
    and "JSON_parse (concat fragments) = Some v" and "tc_argsString t = None"
  shows "tc_args (fold (\<lambda>a t. add_arguments t a) fragments t) = v"
proof (cases fragments rule: rev_cases)
  case Nil
  with assms(2) show ?thesis by simp
next
  case (snoc init a)
  with assms(1) have init: "\<forall>a \<in> set init. JSON_parse a = None" and a: "JSON_parse a = None"
    by simp_all
  have buffer: "tc_argsString (fold (\<lambda>a t. add_arguments t a) init t)
      = (if init = [] then None else Some (concat init))"
    using init assms(4) by (rule fold_add_arguments_buffer)
  have "JSON_parse ((case tc_argsString (fold (\<lambda>a t. add_arguments t a) init t) of
                       None \<Rightarrow> [] | Some b \<Rightarrow> b) @ a) = Some v"
    using assms(3) snoc buffer by (cases "init = []") simp_all
  from add_arguments_buffer(2) [OF a this] snoc show ?thesis
    by simp
qed

text \<open>
  C1 fails on both assemblers: the arguments \<^verbatim>\<open>{"x":100}\<close> in one fragment give
  \<^verbatim>\<open>{x: 100}\<close>; in the fragments \<^verbatim>\<open>{"x":\<close>, \<^verbatim>\<open>100\<close>, \<^verbatim>\<open>}\<close> they give the
  empty object. In \<^verbatim>\<open>_streamGenerate\<close> the fragment \<^verbatim>\<open>100\<close> parses on its own and
  never reaches \<^verbatim>\<open>argsString\<close>; \<^verbatim>\<open>streamChatCompletion\<close> has no buffer at all.
\<close>

theorem split_arguments_divergence:
  \<open>map_option (map tc_args \<circ> ai_tool_calls)
      (assemble [call_chunk, arguments_chunk ''{"x":100}'', done_chunk])
     = Some [JObj [(''x'', JNum 1 2)]]
   \<and> map_option (map tc_args \<circ> ai_tool_calls)
      (assemble [call_chunk, arguments_chunk ''{"x":'', arguments_chunk ''100'',
                 arguments_chunk ''}'', done_chunk])
     = Some [JObj []]
   \<and> map_option (map tc_args \<circ> ai_tool_calls \<circ> last)
      (client_assemble [call_chunk, arguments_chunk ''{"x":100}'', done_chunk])
     = Some [JObj [(''x'', JNum 1 2)]]
   \<and> map_option (map tc_args \<circ> ai_tool_calls \<circ> last)
      (client_assemble [call_chunk, arguments_chunk ''{"x":'', arguments_chunk ''100'',
                        arguments_chunk ''}'', done_chunk])
     = Some [JObj []]\<close>
  by code_simp

text \<open>
  The arguments of the scenario of the specification, in two fragments neither of which
  parses on its own: \<^verbatim>\<open>_streamGenerate\<close> assembles them, \<^verbatim>\<open>streamChatCompletion\<close>
  does not.
\<close>

lemma spec_scenario:
  \<open>map_option ai_tool_calls
      (assemble [call_chunk, arguments_chunk ''{"action":{"typ'',
                 arguments_chunk ''e":"screenshot"}}'', done_chunk])
     = Some [\<lparr>tc_id = ''c1'', tc_name = ''computer_use'', tc_args = screenshot_args,
              tc_argsString = Some ''{"action":{"type":"screenshot"}}''\<rparr>]
   \<and> map_option (ai_tool_calls \<circ> last)
      (client_assemble [call_chunk, arguments_chunk ''{"action":{"typ'',
                        arguments_chunk ''e":"screenshot"}}'', done_chunk])
     = Some [\<lparr>tc_id = ''c1'', tc_name = ''computer_use'', tc_args = JObj [],
              tc_argsString = None\<rparr>]\<close>
  by code_simp

subsection \<open>Fragments and indices\<close>

text \<open>
  What the assemblers do achieve. Each fragment changes the invocation at its own index
  only, so the identifier and the name of the invocation at an index are the last ones
  that the fragments of that index supply, whatever fragments of other tool calls come
  in between, and the list has one invocation for each index up to the largest.
\<close>

lemma set_id_name_id:
  "tc_id (set_id_name t d) = (case fragment_id d of None \<Rightarrow> tc_id t | Some i \<Rightarrow> i)"
  by (cases "tcd_id d")
     (auto simp: set_id_name_def fragment_id_def Let_def split: option.splits)

lemma set_id_name_name:
  "tc_name (set_id_name t d) = (case fragment_name d of None \<Rightarrow> tc_name t | Some n \<Rightarrow> n)"
  by (auto simp: set_id_name_def fragment_name_def Let_def split: option.splits)

lemma add_arguments_id_name [simp]:
  "tc_id (add_arguments t a) = tc_id t" "tc_name (add_arguments t a) = tc_name t"
  by (simp_all add: add_arguments_def Let_def split: option.splits)

lemma length_pad: "length (pad_tool_calls tcs i) = max (length tcs) (Suc i)"
  by (simp add: pad_tool_calls_def)

lemma slot_pad: "slot (pad_tool_calls tcs i) j = slot tcs j"
  by (simp add: slot_def pad_tool_calls_def nth_append)

lemma slot_update:
  "slot (tcs[i := t]) j = (if j = i \<and> i < length tcs then t else slot tcs j)"
  by (simp add: slot_def)

lemma apply_fragment_length:
  "length (apply_fragment tcs d) = max (length tcs) (Suc (fragment_index d))"
  by (simp add: apply_fragment_def Let_def length_pad)

lemma client_apply_fragment_length:
  "length (fst (client_apply_fragment tcs d)) = max (length tcs) (Suc (fragment_index d))"
  by (simp add: client_apply_fragment_def Let_def length_pad split: option.split)

lemma pad_nth: "pad_tool_calls tcs i ! i = slot tcs i"
  using slot_pad [of tcs i i] by (simp add: slot_def length_pad less_max_iff_disj)

lemma apply_fragment_slot:
  "tc_id (slot (apply_fragment tcs d) j)
     = (if j = fragment_index d
        then (case fragment_id d of None \<Rightarrow> tc_id (slot tcs j) | Some x \<Rightarrow> x)
        else tc_id (slot tcs j))"
  "tc_name (slot (apply_fragment tcs d) j)
     = (if j = fragment_index d
        then (case fragment_name d of None \<Rightarrow> tc_name (slot tcs j) | Some x \<Rightarrow> x)
        else tc_name (slot tcs j))"
  by (simp_all add: apply_fragment_def Let_def slot_update slot_pad length_pad pad_nth
        less_max_iff_disj set_id_name_id set_id_name_name split: option.split)

lemma client_apply_fragment_slot:
  "tc_id (slot (fst (client_apply_fragment tcs d)) j)
     = (if j = fragment_index d
        then (case fragment_id d of None \<Rightarrow> tc_id (slot tcs j) | Some x \<Rightarrow> x)
        else tc_id (slot tcs j))"
  "tc_name (slot (fst (client_apply_fragment tcs d)) j)
     = (if j = fragment_index d
        then (case fragment_name d of None \<Rightarrow> tc_name (slot tcs j) | Some x \<Rightarrow> x)
        else tc_name (slot tcs j))"
  by (simp_all add: client_apply_fragment_def Let_def slot_update slot_pad length_pad pad_nth
        less_max_iff_disj set_id_name_id set_id_name_name split: option.split)

lemma supplied_ids_Cons:
  "supplied_ids (d # ds)
     = (case fragment_id d of None \<Rightarrow> supplied_ids ds | Some x \<Rightarrow> x # supplied_ids ds)"
  by (simp add: supplied_ids_def split: option.split)

lemma supplied_names_Cons:
  "supplied_names (d # ds)
     = (case fragment_name d of None \<Rightarrow> supplied_names ds | Some x \<Rightarrow> x # supplied_names ds)"
  by (simp add: supplied_names_def split: option.split)

lemma supplied_ids_nonempty: "x \<in> set (supplied_ids ds) \<Longrightarrow> x \<noteq> []"
  by (auto simp: supplied_ids_def List.map_filter_def fragment_id_def split: if_splits)

lemma supplied_names_nonempty: "x \<in> set (supplied_names ds) \<Longrightarrow> x \<noteq> []"
  by (auto simp: supplied_names_def List.map_filter_def fragment_name_def
           split: if_splits option.splits)

lemma fold_slot:
  assumes len: "\<And>tcs d. length (f d tcs) = max (length tcs) (Suc (fragment_index d))"
    and ids: "\<And>tcs d j. tc_id (slot (f d tcs) j)
       = (if j = fragment_index d
          then (case fragment_id d of None \<Rightarrow> tc_id (slot tcs j) | Some x \<Rightarrow> x)
          else tc_id (slot tcs j))"
    and names: "\<And>tcs d j. tc_name (slot (f d tcs) j)
       = (if j = fragment_index d
          then (case fragment_name d of None \<Rightarrow> tc_name (slot tcs j) | Some x \<Rightarrow> x)
          else tc_name (slot tcs j))"
  shows "tc_id (slot (fold f ds tcs) i)
           = (if supplied_ids (with_index i ds) = [] then tc_id (slot tcs i)
              else last (supplied_ids (with_index i ds)))"
    and "tc_name (slot (fold f ds tcs) i)
           = (if supplied_names (with_index i ds) = [] then tc_name (slot tcs i)
              else last (supplied_names (with_index i ds)))"
    and "i < length (fold f ds tcs) \<longleftrightarrow> i < length tcs \<or> (\<exists>d \<in> set ds. i \<le> fragment_index d)"
proof (induction ds arbitrary: tcs)
  case Nil
  {
    case 1 show ?case by (simp add: with_index_def supplied_ids_def)
  next
    case 2 show ?case by (simp add: with_index_def supplied_names_def)
  next
    case 3 show ?case by simp
  }
next
  case (Cons d ds)
  {
    case 1
    show ?case
      by (simp add: Cons.IH(1) ids with_index_def supplied_ids_Cons split: option.split)
  next
    case 2
    show ?case
      by (simp add: Cons.IH(2) names with_index_def supplied_names_Cons split: option.split)
  next
    case 3
    show ?case
      by (auto simp: Cons.IH(3) len)
  }
qed

lemma update_metadata_fragments [simp]: "update_metadata (fragments_event ds) md = md"
  by (simp add: update_metadata_def fragments_event_def)

lemma process_fragments_event:
  "accumulatedToolCalls (process_event dataStr (fragments_event ds) st)
     = fold (\<lambda>d tcs. apply_fragment tcs d) ds (accumulatedToolCalls st)"
  by (simp add: process_event_def fragments_event_def Let_def update_metadata_def)

lemma fold_process_fragments:
  "accumulatedToolCalls (fold (process_event dataStr) (map fragments_event groups) st)
     = fold (\<lambda>d tcs. apply_fragment tcs d) (concat groups) (accumulatedToolCalls st)"
  by (induction groups arbitrary: st) (simp_all add: process_fragments_event)

lemma client_apply_fragment_raises:
  "snd (client_apply_fragment tcs d) = (\<not> fragment_parses d)"
  by (simp add: client_apply_fragment_def fragment_parses_def Let_def split: option.split)

lemma client_apply_fragments_fold:
  "\<forall>d \<in> set (butlast ds). fragment_parses d
     \<Longrightarrow> fst (client_apply_fragments tcs ds)
           = fold (\<lambda>d tcs. fst (client_apply_fragment tcs d)) ds tcs"
proof (induction ds arbitrary: tcs)
  case Nil
  then show ?case by simp
next
  case (Cons d ds)
  show ?case
  proof (cases "ds = []")
    case True
    then show ?thesis
      by (simp split: prod.split bool.split)
  next
    case False
    with Cons.prems have "fragment_parses d" and "\<forall>d \<in> set (butlast ds). fragment_parses d"
      by simp_all
    with Cons.IH client_apply_fragment_raises [of tcs d] show ?thesis
      by (cases "client_apply_fragment tcs d") simp
  qed
qed

lemma client_process_fragments_event:
  "\<forall>d \<in> set (butlast ds). fragment_parses d
     \<Longrightarrow> accumulatedToolCalls (client_process_event dataStr (fragments_event ds) st)
           = fold (\<lambda>d tcs. fst (client_apply_fragment tcs d)) ds (accumulatedToolCalls st)"
  using client_apply_fragments_fold [of ds "accumulatedToolCalls st"]
  by (cases "client_apply_fragments (accumulatedToolCalls st) ds")
     (auto simp: client_process_event_def fragments_event_def Let_def split: bool.splits)

lemma fold_client_process_fragments:
  "\<forall>g \<in> set groups. \<forall>d \<in> set (butlast g). fragment_parses d
     \<Longrightarrow> accumulatedToolCalls
             (fold (client_process_event dataStr) (map fragments_event groups) st)
           = fold (\<lambda>d tcs. fst (client_apply_fragment tcs d)) (concat groups)
               (accumulatedToolCalls st)"
  by (induction groups arbitrary: st) (simp_all add: client_process_fragments_event)

lemma fold_fragments_converge:
  assumes len: "\<And>tcs d. length (f d tcs) = max (length tcs) (Suc (fragment_index d))"
    and ids: "\<And>tcs d j. tc_id (slot (f d tcs) j)
       = (if j = fragment_index d
          then (case fragment_id d of None \<Rightarrow> tc_id (slot tcs j) | Some x \<Rightarrow> x)
          else tc_id (slot tcs j))"
    and names: "\<And>tcs d j. tc_name (slot (f d tcs) j)
       = (if j = fragment_index d
          then (case fragment_name d of None \<Rightarrow> tc_name (slot tcs j) | Some x \<Rightarrow> x)
          else tc_name (slot tcs j))"
    and first: "with_index i fragments = d0 # ds" "tcd_id d0 = None" "tcd_function d0 = None"
    and supplied: "supplied_ids ds \<noteq> []" "supplied_names ds \<noteq> []"
  shows "i < length (fold f fragments [])"
    and "id_name (fold f fragments [] ! i) = (last (supplied_ids ds), last (supplied_names ds))"
    and "length (fold f fragments []) = Suc (Max (fragment_index ` set fragments))"
proof -
  have "d0 \<in> set (with_index i fragments)"
    using first(1) by simp
  then have d0: "d0 \<in> set fragments" "fragment_index d0 = i"
    by (simp_all add: with_index_def)
  have bound: "j < length (fold f fragments []) \<longleftrightarrow> (\<exists>d \<in> set fragments. j \<le> fragment_index d)"
    for j
    using fold_slot(3) [where f = f and ds = fragments and tcs = "[]" and i = j, OF len ids names] by simp
  from d0 bound [of i] show inside: "i < length (fold f fragments [])"
    by auto
  have "fragment_id d0 = None" "fragment_name d0 = None"
    using first(2,3) by (simp_all add: fragment_id_def fragment_name_def)
  then have "supplied_ids (with_index i fragments) = supplied_ids ds"
    and "supplied_names (with_index i fragments) = supplied_names ds"
    using first(1) by (simp_all add: supplied_ids_Cons supplied_names_Cons)
  with supplied fold_slot(1,2) [where f = f and ds = fragments and tcs = "[]" and i = i, OF len ids names]
  have "tc_id (slot (fold f fragments []) i) = last (supplied_ids ds)"
    and "tc_name (slot (fold f fragments []) i) = last (supplied_names ds)"
    by simp_all
  with inside show "id_name (fold f fragments [] ! i)
      = (last (supplied_ids ds), last (supplied_names ds))"
    by (simp add: slot_def id_name_def)
  have fin: "finite (fragment_index ` set fragments)" and ne: "fragment_index ` set fragments \<noteq> {}"
    using d0(1) by auto
  have "j < length (fold f fragments []) \<longleftrightarrow> j < Suc (Max (fragment_index ` set fragments))" for j
    using bound [of j] Max_ge_iff [OF fin ne, of j] by auto
  then show "length (fold f fragments []) = Suc (Max (fragment_index ` set fragments))"
    by (metis less_irrefl linorder_neqE_nat)
qed

text \<open>
  For the fragments of an index that begin with a fragment carrying the index only and
  then supply an identifier and a name: \<^verbatim>\<open>_streamGenerate\<close> converges to the invocation
  at that index with the last identifier and name, under every grouping of the fragments
  into events, and its final message holds it; \<^verbatim>\<open>streamChatCompletion\<close> does when, in
  every event, the argument text of each fragment but the last parses on its own.
\<close>

lemma same_index_fragments_converge:
  assumes "with_index i (concat groups) = d0 # ds"
    and "tcd_id d0 = None" and "tcd_function d0 = None"
    and "supplied_ids ds \<noteq> []" and "supplied_names ds \<noteq> []"
  shows "i < length (accumulatedToolCalls
            (fold (process_event dataStr) (map fragments_event groups) initial_generate_state))"
    and "id_name (accumulatedToolCalls
            (fold (process_event dataStr) (map fragments_event groups) initial_generate_state) ! i)
           = (last (supplied_ids ds), last (supplied_names ds))"
    and "length (accumulatedToolCalls
            (fold (process_event dataStr) (map fragments_event groups) initial_generate_state))
           = Suc (Max (fragment_index ` set (concat groups)))"
    and "accumulatedToolCalls
            (fold (process_event dataStr) (map fragments_event groups) initial_generate_state) ! i
           \<in> set (ai_tool_calls (final_message
               (fold (process_event dataStr) (map fragments_event groups)
                  initial_generate_state)))"
proof -
  let ?tcs = "accumulatedToolCalls
      (fold (process_event dataStr) (map fragments_event groups) initial_generate_state)"
  have tcs: "?tcs = fold (\<lambda>d tcs. apply_fragment tcs d) (concat groups) []"
    by (simp only: fold_process_fragments) (simp add: initial_generate_state_def)
  note c = fold_fragments_converge [of "\<lambda>d tcs. apply_fragment tcs d" i "concat groups" d0 ds,
      OF apply_fragment_length apply_fragment_slot assms]
  from c(1) show inside: "i < length ?tcs"
    by (simp only: tcs)
  from c(2) show id_name: "id_name (?tcs ! i) = (last (supplied_ids ds), last (supplied_names ds))"
    by (simp only: tcs)
  from c(3) show "length ?tcs = Suc (Max (fragment_index ` set (concat groups)))"
    by (simp only: tcs)
  have "last (supplied_ids ds) \<noteq> []"
    using assms(4) supplied_ids_nonempty [of "last (supplied_ids ds)" ds] by simp
  moreover have "last (supplied_names ds) \<noteq> []"
    using assms(5) supplied_names_nonempty [of "last (supplied_names ds)" ds] by simp
  ultimately have "tc_id (?tcs ! i) \<noteq> []" "tc_name (?tcs ! i) \<noteq> []"
    using id_name by (simp_all add: id_name_def)
  with inside show "?tcs ! i \<in> set (ai_tool_calls (final_message
      (fold (process_event dataStr) (map fragments_event groups) initial_generate_state)))"
    by (simp add: final_message_def)
qed

lemma client_same_index_fragments_converge:
  assumes "with_index i (concat groups) = d0 # ds"
    and "tcd_id d0 = None" and "tcd_function d0 = None"
    and "supplied_ids ds \<noteq> []" and "supplied_names ds \<noteq> []"
    and "\<forall>g \<in> set groups. \<forall>d \<in> set (butlast g). fragment_parses d"
  shows "i < length (accumulatedToolCalls
            (fold (client_process_event dataStr) (map fragments_event groups)
               initial_client_state))"
    and "id_name (accumulatedToolCalls
            (fold (client_process_event dataStr) (map fragments_event groups)
               initial_client_state) ! i)
           = (last (supplied_ids ds), last (supplied_names ds))"
    and "length (accumulatedToolCalls
            (fold (client_process_event dataStr) (map fragments_event groups)
               initial_client_state))
           = Suc (Max (fragment_index ` set (concat groups)))"
proof -
  let ?tcs = "accumulatedToolCalls
      (fold (client_process_event dataStr) (map fragments_event groups) initial_client_state)"
  have tcs: "?tcs = fold (\<lambda>d tcs. fst (client_apply_fragment tcs d)) (concat groups) []"
    using fold_client_process_fragments [OF assms(6), of dataStr initial_client_state]
    by (simp add: initial_client_state_def)
  note c = fold_fragments_converge [of "\<lambda>d tcs. fst (client_apply_fragment tcs d)" i "concat groups" d0 ds,
      OF client_apply_fragment_length client_apply_fragment_slot assms(1-5)]
  from c(1) show "i < length ?tcs"
    by (simp only: tcs)
  from c(2) show "id_name (?tcs ! i) = (last (supplied_ids ds), last (supplied_names ds))"
    by (simp only: tcs)
  from c(3) show "length ?tcs = Suc (Max (fragment_index ` set (concat groups)))"
    by (simp only: tcs)
qed

text \<open>
  Two tool calls whose fragments alternate: the invocation at the index 1 gets the
  identifier and the name of the fragments of the index 1.
\<close>

lemma interleaved_fragments_example:
  "id_name (accumulatedToolCalls
      (fold (process_event [])
         (map fragments_event
            [[index_only 1],
             [name_fragment 0 ''computer_use'' ''{}'', id_fragment 1 ''c2''],
             [id_fragment 0 ''c1'', name_fragment 1 ''computer_use'' ''{}'']])
         initial_generate_state) ! 1)
     = (''c2'', ''computer_use'')
   \<and> id_name (accumulatedToolCalls
      (fold (client_process_event [])
         (map fragments_event
            [[index_only 1],
             [name_fragment 0 ''computer_use'' ''{}'', id_fragment 1 ''c2''],
             [id_fragment 0 ''c1'', name_fragment 1 ''computer_use'' ''{}'']])
         initial_client_state) ! 1)
     = (''c2'', ''computer_use'')"
proof -
  let ?groups = "[[index_only 1],
             [name_fragment 0 ''computer_use'' ''{}'', id_fragment 1 ''c2''],
             [id_fragment 0 ''c1'', name_fragment 1 ''computer_use'' ''{}'']]"
  let ?ds = "[id_fragment 1 ''c2'', name_fragment 1 ''computer_use'' ''{}'']"
  have fragments: "with_index 1 (concat ?groups) = index_only 1 # ?ds"
    by (simp add: with_index_def index_only_def id_fragment_def name_fragment_def
          fragment_index_def)
  have first: "tcd_id (index_only 1) = None" "tcd_function (index_only 1) = None"
    by (simp_all add: index_only_def)
  have ids: "supplied_ids ?ds = [''c2'']" and names: "supplied_names ?ds = [''computer_use'']"
    by (simp_all add: supplied_ids_def supplied_names_def List.map_filter_def fragment_id_def
          fragment_name_def id_fragment_def name_fragment_def)
  have parses: "\<forall>g \<in> set ?groups. \<forall>d \<in> set (butlast g). fragment_parses d"
    by (simp add: fragment_parses_def fragment_arguments_def name_fragment_def id_fragment_def
          JSON_parse_empty_object)
  show ?thesis
    using same_index_fragments_converge(2) [OF fragments first, of "[]"]
      client_same_index_fragments_converge(2) [OF fragments first _ _ parses, of "[]"]
    by (simp only: ids names) simp
qed

text \<open>
  C8 fails on \<^verbatim>\<open>GrokStreamingClient.streamChatCompletion\<close>. After a fragment that
  carries the index 0 only, an event brings two fragments of the index 0: argument text
  that does not parse on its own, then the identifier and the name. \<^verbatim>\<open>JSON.parse\<close>
  throws on the first, the \<^verbatim>\<open>catch\<close> of the line ends the loop over the fragments, and the
  invocation of the final message has no identifier and no name; \<^verbatim>\<open>_streamGenerate\<close>
  gives the invocation with both. The same happens to a second tool call whose identifier
  and name come in one event after argument text of the first.
\<close>

theorem index_only_fragment_diverges:
  "map_option (map id_name \<circ> ai_tool_calls \<circ> last)
       (client_assemble [partial_chunk, late_id_chunk, done_chunk])
     = Some [([], [])]
   \<and> map_option (map id_name \<circ> ai_tool_calls)
       (assemble [partial_chunk, late_id_chunk, done_chunk])
     = Some [(''c1'', ''computer_use'')]
   \<and> map_option (map id_name \<circ> ai_tool_calls \<circ> last)
       (client_assemble [second_index_chunk, parallel_chunk, done_chunk])
     = Some [([], []), ([], [])]
   \<and> map_option (map id_name \<circ> ai_tool_calls)
       (assemble [second_index_chunk, parallel_chunk, done_chunk])
     = Some [(''c2'', ''computer_use'')]"
  by code_simp

end
